theory Spec2Isabelle
  imports Main "HOL-Library.Sublist"
begin

section \<open>JavaScript values and the string primitives the server uses\<close>

text \<open>
  The server (\<^verbatim>\<open>src/build/index.js\<close>) drives \<^verbatim>\<open>xcodebuild\<close> as a child process and
  post-processes its console output. A JavaScript string is modelled as a \<^typ>\<open>string\<close>,
  one \<^typ>\<open>char\<close> per code unit; the model therefore covers code units below 256.
  A value produced by \<^verbatim>\<open>JSON.parse\<close> is a \<open>json\<close>; a number is an IEEE double as
  \<^verbatim>\<open>JSON.parse\<close> can produce it (sign, mantissa and binary exponent, or an infinity); the
  server never looks inside one. An object is the list of its properties; the server
  reads a property by its key, which \<open>map_of\<close> does. A raw output line kept as plain text
  is the JavaScript string itself, that is a \<open>JString\<close>: at run time it cannot be told
  apart from a decoded JSON string, and the model keeps it that way.
\<close>

datatype number =
    Finite bool nat int
  | Infinite bool

datatype json =
    JNull
  | JBool bool
  | JNumber number
  | JString string
  | JArray "json list"
  | JObject "(string \<times> json) list"

datatype js_type = TString | TNumber | TBoolean | TObject

fun js_typeof :: "json \<Rightarrow> js_type" where
  "js_typeof (JString s) = TString"
| "js_typeof (JNumber n) = TNumber"
| "js_typeof (JBool b) = TBoolean"
| "js_typeof JNull = TObject"
| "js_typeof (JArray xs) = TObject"
| "js_typeof (JObject kvs) = TObject"

text \<open>
  Property access \<^verbatim>\<open>v.k\<close> on a value that is neither null nor undefined, for the keys the
  server reads (\<^verbatim>\<open>type\<close>, \<^verbatim>\<open>diagnostic\<close>, \<^verbatim>\<open>severity\<close>): only an object can own them,
  and \<open>None\<close> stands for \<^verbatim>\<open>undefined\<close>. The optional chain \<^verbatim>\<open>v?.k\<close> also accepts null
  and undefined receivers and yields \<^verbatim>\<open>undefined\<close> there.
\<close>

fun js_member :: "json \<Rightarrow> string \<Rightarrow> json option" where
  "js_member (JObject kvs) k = map_of kvs k"
| "js_member v k = None"

fun js_opt_member :: "json option \<Rightarrow> string \<Rightarrow> json option" where
  "js_opt_member None k = None"
| "js_opt_member (Some JNull) k = None"
| "js_opt_member (Some v) k = js_member v k"

text \<open>\<^verbatim>\<open>s.split(sep)\<close> for a one-character separator: always at least one piece.\<close>

fun js_split :: "char \<Rightarrow> string \<Rightarrow> string list" where
  "js_split sep [] = [[]]"
| "js_split sep (c # cs) =
     (if c = sep then [] # js_split sep cs
      else (case js_split sep cs of
              [] \<Rightarrow> [[c]]
            | piece # pieces \<Rightarrow> (c # piece) # pieces))"

text \<open>\<^verbatim>\<open>xs.join(sep)\<close> on an array of strings.\<close>

fun js_join :: "string \<Rightarrow> string list \<Rightarrow> string" where
  "js_join sep [] = []"
| "js_join sep [x] = x"
| "js_join sep (x # y # ys) = x @ sep @ js_join sep (y # ys)"

text \<open>
  \<^verbatim>\<open>s.trim()\<close> strips white space and line terminators from both ends. Below code unit
  256 these are TAB, LF, VT, FF, CR, SPACE and NBSP.
\<close>

definition is_js_space :: "char \<Rightarrow> bool" where
  "is_js_space c \<longleftrightarrow>
     c = CHR 0x09 \<or> c = CHR 0x0A \<or> c = CHR 0x0B \<or> c = CHR 0x0C \<or> c = CHR 0x0D \<or>
     c = CHR 0x20 \<or> c = CHR 0xA0"

definition js_trim :: "string \<Rightarrow> string" where
  "js_trim s = rev (dropWhile is_js_space (rev (dropWhile is_js_space s)))"

text \<open>\<^verbatim>\<open>s.startsWith(p)\<close> and \<^verbatim>\<open>s.includes(p)\<close>.\<close>

definition js_startsWith :: "string \<Rightarrow> string \<Rightarrow> bool" where
  "js_startsWith s p = prefix p s"

fun js_includes :: "string \<Rightarrow> string \<Rightarrow> bool" where
  "js_includes [] p = (p = [])"
| "js_includes (c # cs) p = (prefix p (c # cs) \<or> js_includes cs p)"

text \<open>
  The regular expression \<^verbatim>\<open>/^\/.+:\d+:\d+: error:/\<close> of \<^verbatim>\<open>filterBuildOutput\<close>, matched
  from the start of the line: a slash, one or more characters other than line terminators,
  then \<^verbatim>\<open>:digits:digits: error:\<close>. A run of digits followed by a colon can only be the
  maximal run, so the two \<^verbatim>\<open>\d+\<close> need no backtracking; \<^verbatim>\<open>.+\<close> does, and
  \<open>dot_plus_rest\<close> tries every split point.
\<close>

definition is_digit :: "char \<Rightarrow> bool" where
  "is_digit c \<longleftrightarrow> c \<in> set ''0123456789''"

definition is_line_terminator :: "char \<Rightarrow> bool" where
  "is_line_terminator c \<longleftrightarrow> c = CHR 0x0A \<or> c = CHR 0x0D"

definition digits_then :: "string \<Rightarrow> string option" where
  "digits_then s =
     (if takeWhile is_digit s = [] then None else Some (dropWhile is_digit s))"

definition location_tail :: "string \<Rightarrow> bool" where
  "location_tail s =
     (case s of
        [] \<Rightarrow> False
      | c # s1 \<Rightarrow>
          c = CHR '':'' \<and>
          (case digits_then s1 of
             None \<Rightarrow> False
           | Some s2 \<Rightarrow>
               (case s2 of
                  [] \<Rightarrow> False
                | d # s3 \<Rightarrow>
                    d = CHR '':'' \<and>
                    (case digits_then s3 of
                       None \<Rightarrow> False
                     | Some s4 \<Rightarrow> prefix '': error:'' s4))))"

fun dot_plus_rest :: "string \<Rightarrow> bool" where
  "dot_plus_rest [] = False"
| "dot_plus_rest (c # cs) =
     (location_tail (c # cs) \<or> (\<not> is_line_terminator c \<and> dot_plus_rest cs))"

definition matches_error_location :: "string \<Rightarrow> bool" where
  "matches_error_location line =
     (case line of
        [] \<Rightarrow> False
      | c # rest \<Rightarrow>
          c = CHR ''/'' \<and>
          (case rest of
             [] \<Rightarrow> False
           | d # rest' \<Rightarrow> \<not> is_line_terminator d \<and> dot_plus_rest rest'))"

section \<open>The platform functions taken as given\<close>

text \<open>
  \<^verbatim>\<open>JSON.parse\<close> (\<open>None\<close> when it throws), \<^verbatim>\<open>JSON.stringify(v)\<close>,
  \<^verbatim>\<open>JSON.stringify(lines, null, 2)\<close>, \<^verbatim>\<open>path.join\<close> and \<^verbatim>\<open>path.dirname\<close> belong to the
  JavaScript run time, not to the server. The model takes them as parameters, so every
  theorem holds for whatever these functions compute.
\<close>

record js_runtime =
  JSON_parse :: "string \<Rightarrow> json option"
  JSON_stringify :: "json \<Rightarrow> string"
  JSON_stringify_pretty :: "json list \<Rightarrow> string"
  path_join :: "string list \<Rightarrow> string"
  path_dirname :: "string \<Rightarrow> string"

section \<open>The output classifier\<close>

text \<open>
  The arrow function that \<^verbatim>\<open>filterBuildOutput\<close> hands to \<^verbatim>\<open>Array.prototype.filter\<close>.
  The first equation is the \<^verbatim>\<open>typeof line === 'string'\<close> branch; the second handles every
  other value.
\<close>

fun significant :: "json \<Rightarrow> bool" where
  "significant (JString line) =
     (if js_startsWith line ''/usr/bin/xcodebuild'' \<or> js_includes line ''** BUILD'' then True
      else if matches_error_location line \<or> js_includes line ''note: found this candidate''
      then True
      else False)"
| "significant line =
     (if js_typeof line = TObject \<and>
         js_opt_member (Some line) ''type'' = Some (JString ''diagnostic'')
      then js_opt_member (js_member line ''diagnostic'') ''severity'' = Some (JString ''error'')
      else False)"

definition filterBuildOutput :: "json list \<Rightarrow> json list" where
  "filterBuildOutput jsonOutput = filter significant jsonOutput"

text \<open>
  The decoding step shared by \<^verbatim>\<open>buildProject\<close> and \<^verbatim>\<open>runTests\<close>:
  \<^verbatim>\<open>stdout.split('\n').filter(line => line.trim()).map(line => { try { return JSON.parse(line) } catch (e) { return line } })\<close>.
\<close>

definition decode_line :: "js_runtime \<Rightarrow> string \<Rightarrow> json" where
  "decode_line rt line =
     (case JSON_parse rt line of Some v \<Rightarrow> v | None \<Rightarrow> JString line)"

definition kept_lines :: "string \<Rightarrow> string list" where
  "kept_lines stdout = filter (\<lambda>line. js_trim line \<noteq> []) (js_split (CHR 0x0A) stdout)"

definition decode_output :: "js_runtime \<Rightarrow> string \<Rightarrow> json list" where
  "decode_output rt stdout = map (decode_line rt) (kept_lines stdout)"

text \<open>\<^verbatim>\<open>includeWarnings ? jsonOutput : this.filterBuildOutput(jsonOutput)\<close>.\<close>

definition filteredOutput :: "bool \<Rightarrow> json list \<Rightarrow> json list" where
  "filteredOutput includeWarnings jsonOutput =
     (if includeWarnings then jsonOutput else filterBuildOutput jsonOutput)"

text \<open>
  \<^verbatim>\<open>filteredOutput.map(line => typeof line === 'string' ? line : JSON.stringify(line)).join('\n')\<close>.
\<close>

definition render_line :: "js_runtime \<Rightarrow> json \<Rightarrow> string" where
  "render_line rt line = (case line of JString s \<Rightarrow> s | _ \<Rightarrow> JSON_stringify rt line)"

definition outputText :: "js_runtime \<Rightarrow> json list \<Rightarrow> string" where
  "outputText rt lines = js_join [CHR 0x0A] (map (render_line rt) lines)"

section \<open>The environment: disk and child processes\<close>

text \<open>
  What the server does to the outside world is made explicit. A \<open>disk\<close> holds the regular
  files, the directories, and the paths at which \<^verbatim>\<open>writeFile\<close> and \<^verbatim>\<open>mkdir\<close> reject
  (with the message of the rejection). A child process is any function from the command
  line and the disk it finds to an outcome and the disk it leaves; \<^verbatim>\<open>tee\<close> writing the
  raw log and \<^verbatim>\<open>xcodebuild\<close> creating the result bundle are such changes. The \<open>world\<close>
  also records, in order, every command line handed to \<^verbatim>\<open>execAsync\<close>. Messages printed
  with \<^verbatim>\<open>console.error\<close> are not modelled.
\<close>

text \<open>
  A thrown value is either an instance of \<^verbatim>\<open>Error\<close>, with its message and the
  \<^verbatim>\<open>stderr\<close> that \<^verbatim>\<open>exec\<close> may attach to it (\<open>None\<close> when there is none), or any other
  value. \<^verbatim>\<open>execAsync\<close> resolves with stdout and stderr, or rejects with a thrown value.
\<close>

datatype js_exception =
    ErrorValue string "string option"
  | NonError json

datatype exec_outcome =
    Resolved string string
  | Rejected js_exception

record disk =
  files :: "string \<rightharpoonup> string"
  dirs :: "string set"
  denied :: "string \<rightharpoonup> string"

record world =
  on_disk :: disk
  issued :: "string list"

type_synonym child_process = "string \<Rightarrow> disk \<Rightarrow> exec_outcome \<times> disk"

definition execAsync :: "child_process \<Rightarrow> string \<Rightarrow> world \<Rightarrow> exec_outcome \<times> world" where
  "execAsync child command w =
     (case child command (on_disk w) of
        (outcome, d) \<Rightarrow> (outcome, \<lparr>on_disk = d, issued = issued w @ [command]\<rparr>))"

definition writeFile :: "string \<Rightarrow> string \<Rightarrow> world \<Rightarrow> js_exception + world" where
  "writeFile p content w =
     (case denied (on_disk w) p of
        Some msg \<Rightarrow> Inl (ErrorValue msg None)
      | None \<Rightarrow> Inr (w\<lparr>on_disk := (on_disk w)\<lparr>files := (files (on_disk w))(p \<mapsto> content)\<rparr>\<rparr>))"

definition mkdir :: "string \<Rightarrow> world \<Rightarrow> js_exception + world" where
  "mkdir p w =
     (case denied (on_disk w) p of
        Some msg \<Rightarrow> Inl (ErrorValue msg None)
      | None \<Rightarrow> Inr (w\<lparr>on_disk := (on_disk w)\<lparr>dirs := insert p (dirs (on_disk w))\<rparr>\<rparr>))"

definition existsSync :: "string \<Rightarrow> world \<Rightarrow> bool" where
  "existsSync p w \<longleftrightarrow> p \<in> dirs (on_disk w) \<or> p \<in> dom (files (on_disk w))"

definition readFile :: "string \<Rightarrow> world \<Rightarrow> string + string" where
  "readFile p w =
     (case files (on_disk w) p of
        Some content \<Rightarrow> Inr content
      | None \<Rightarrow> Inl (''ENOENT: no such file or directory, open '' @ [CHR 0x27] @ p @ [CHR 0x27]))"

section \<open>The build and test pipeline\<close>

text \<open>
  The result \<^verbatim>\<open>{ success, output, logPath }\<close> of both pipelines (the field
  \<^verbatim>\<open>output\<close> carries a prime, the plain name being reserved), and the fields of the
  server object that the pipelines and handlers use.
\<close>

record invocation_result =
  success :: bool
  output' :: string
  logPath :: string

record server =
  baseDir :: string
  buildLogsDir :: string
  latestBuildLog :: "string option"

text \<open>\<^verbatim>\<open>new Date().toISOString().replace(/[:.]/g, '-')\<close>, from the clock's reading.\<close>

definition timestamp_of :: "string \<Rightarrow> string" where
  "timestamp_of isoString =
     map (\<lambda>c. if c = CHR '':'' \<or> c = CHR ''.'' then CHR ''-'' else c) isoString"

text \<open>
  In the command templates a backslash ends each source line: a line continuation, which
  contributes nothing, so the space before it and the eight spaces that indent the next
  line stay in the command.
\<close>

definition gap :: string where
  "gap = replicate 9 (CHR 0x20)"

definition squote :: string where
  "squote = [CHR 0x27]"

text \<open>The \<^verbatim>\<open>testFlags\<close> of \<^verbatim>\<open>runTests\<close>: an empty identifier and an empty list are falsy.\<close>

definition testFlags :: "string option \<Rightarrow> string list option \<Rightarrow> string" where
  "testFlags testIdentifier skipTests =
     ''test''
     @ (case testIdentifier of
          None \<Rightarrow> []
        | Some t \<Rightarrow> if t = [] then [] else '' -only-testing:'' @ t)
     @ (case skipTests of
          None \<Rightarrow> []
        | Some ts \<Rightarrow>
            if length ts = 0 then []
            else '' '' @ js_join '' '' (map (\<lambda>test. ''-skip-testing:'' @ test) ts))"

definition test_command ::
  "string \<Rightarrow> string \<Rightarrow> string \<Rightarrow> string \<Rightarrow> string \<Rightarrow> string \<Rightarrow> string \<Rightarrow> string" where
  \<open>test_command projectPath scheme configuration destination xcresultPath flags lp =
     ''which xcodebuild && xcodebuild -project "'' @ projectPath @ ''"'' @ gap
     @ ''-scheme "'' @ scheme @ ''"'' @ gap
     @ ''-configuration "'' @ configuration @ ''"'' @ gap
     @ ''-destination '' @ squote @ destination @ squote @ gap
     @ ''-resultBundlePath "'' @ xcresultPath @ ''"'' @ gap
     @ ''-enableCodeCoverage YES'' @ gap
     @ ''-UseModernBuildSystem=YES'' @ gap
     @ ''-json'' @ gap
     @ ''clean '' @ flags @ '' 2>&1 | tee '' @ lp\<close>

definition build_command ::
  "string \<Rightarrow> string \<Rightarrow> string \<Rightarrow> string \<Rightarrow> string \<Rightarrow> string \<Rightarrow> string" where
  \<open>build_command projectPath scheme configuration destination xcresultPath lp =
     ''which xcodebuild && xcodebuild -project "'' @ projectPath @ ''"'' @ gap
     @ ''-scheme "'' @ scheme @ ''"'' @ gap
     @ ''-configuration "'' @ configuration @ ''"'' @ gap
     @ ''-destination '' @ squote @ destination @ squote @ gap
     @ ''-resultBundlePath "'' @ xcresultPath @ ''"'' @ gap
     @ ''-UseModernBuildSystem=YES'' @ gap
     @ ''-json'' @ gap
     @ ''clean build 2>&1 | tee '' @ lp\<close>

definition default_destination :: string where
  "default_destination = ''platform=iOS Simulator,name=iPhone 15 Pro''"

text \<open>
  The \<^verbatim>\<open>catch (error)\<close> block that closes both \<^verbatim>\<open>buildProject\<close> and \<^verbatim>\<open>runTests\<close>. An
  empty attached stderr is falsy and adds nothing. A rejection of the \<^verbatim>\<open>writeFile\<close>
  inside the block leaves the function.
\<close>

definition errorOutput :: "string \<Rightarrow> string option \<Rightarrow> string" where
  "errorOutput message attached =
     message @ (case attached of
                  None \<Rightarrow> []
                | Some err \<Rightarrow> if err = [] then [] else [CHR 0x0A] @ err)"

definition on_exec_error ::
  "string \<Rightarrow> js_exception \<Rightarrow> world \<Rightarrow> (js_exception + invocation_result) \<times> world" where
  "on_exec_error lp error w =
     (case error of
        ErrorValue message attached \<Rightarrow>
          (case writeFile lp (errorOutput message attached) w of
             Inl e \<Rightarrow> (Inl e, w)
           | Inr w' \<Rightarrow>
               (Inr \<lparr>success = False, output' = errorOutput message attached, logPath = lp\<rparr>, w'))
      | NonError v \<Rightarrow> (Inl (NonError v), w))"

text \<open>
  The result-bundle blocks. Each is wrapped in its own \<^verbatim>\<open>try\<close>: the first rejection ends
  the block and is swallowed.
\<close>

definition bundle_json_command :: "string \<Rightarrow> string" where
  \<open>bundle_json_command xcresultPath =
     ''xcrun xcresulttool get --format json --path "'' @ xcresultPath @ ''"''\<close>

definition bundle_text_command :: "string \<Rightarrow> string" where
  \<open>bundle_text_command xcresultPath =
     ''xcrun xcresulttool get --format human-readable --path "'' @ xcresultPath @ ''"''\<close>

definition coverage_command :: "string \<Rightarrow> string" where
  \<open>coverage_command xcresultPath = ''xcrun xccov view --report "'' @ xcresultPath @ ''"''\<close>

definition process_test_results ::
  "js_runtime \<Rightarrow> child_process \<Rightarrow> string \<Rightarrow> string \<Rightarrow> string \<Rightarrow> world \<Rightarrow> world" where
  "process_test_results rt child logsDir timestamp xcresultPath w =
     (case execAsync child (bundle_json_command xcresultPath) w of
        (Rejected resultsError, w1) \<Rightarrow> w1
      | (Resolved summaryOutput err, w1) \<Rightarrow>
          (case writeFile (path_join rt [logsDir, ''test-summary-'' @ timestamp @ ''.json''])
                  summaryOutput w1 of
             Inl resultsError \<Rightarrow> w1
           | Inr w2 \<Rightarrow>
               (case execAsync child (coverage_command xcresultPath) w2 of
                  (Rejected resultsError, w3) \<Rightarrow> w3
                | (Resolved coverage err', w3) \<Rightarrow>
                    (case writeFile (path_join rt [logsDir, ''coverage-'' @ timestamp @ ''.txt''])
                            coverage w3 of
                       Inl resultsError \<Rightarrow> w3
                     | Inr w4 \<Rightarrow> w4))))"

definition process_build_results ::
  "js_runtime \<Rightarrow> child_process \<Rightarrow> string \<Rightarrow> string \<Rightarrow> string \<Rightarrow> world \<Rightarrow> world" where
  "process_build_results rt child logsDir timestamp xcresultPath w =
     (case execAsync child (bundle_json_command xcresultPath) w of
        (Rejected reportError, w1) \<Rightarrow> w1
      | (Resolved report err, w1) \<Rightarrow>
          (case writeFile (path_join rt [logsDir, ''report-'' @ timestamp @ ''.json'']) report w1 of
             Inl reportError \<Rightarrow> w1
           | Inr w2 \<Rightarrow>
               (case execAsync child (bundle_text_command xcresultPath) w2 of
                  (Rejected reportError, w3) \<Rightarrow> w3
                | (Resolved summary err', w3) \<Rightarrow>
                    (case writeFile (path_join rt [logsDir, ''report-'' @ timestamp @ ''.txt''])
                            summary w3 of
                       Inl reportError \<Rightarrow> w3
                     | Inr w4 \<Rightarrow> w4))))"

text \<open>
  \<^verbatim>\<open>runTests\<close>, in the order of the source: the paths derived from the time stamp, the
  directory for the reports (a failure to create it is only logged), the command line, and
  what follows the child process. \<open>now\<close> is what \<^verbatim>\<open>new Date().toISOString()\<close> returns.
  An omitted configuration or destination takes its default. The structured log is
  written inside an inner \<^verbatim>\<open>try\<close> whose failure is swallowed; the result is formed after
  it and after the result-bundle block.
\<close>

definition test_log_path :: "js_runtime \<Rightarrow> server \<Rightarrow> string \<Rightarrow> string" where
  "test_log_path rt srv now =
     path_join rt [buildLogsDir srv, ''test-'' @ timestamp_of now @ ''.log'']"

definition test_bundle_path :: "js_runtime \<Rightarrow> string \<Rightarrow> string \<Rightarrow> string" where
  "test_bundle_path rt projectPath now =
     path_join rt [path_dirname rt projectPath, ''TestReports'', ''Reports-'' @ timestamp_of now]
     @ ''.xcresult''"

definition test_prepare :: "js_runtime \<Rightarrow> string \<Rightarrow> world \<Rightarrow> world" where
  "test_prepare rt projectPath w =
     (case mkdir (path_join rt [path_dirname rt projectPath, ''TestReports'']) w of
        Inl e \<Rightarrow> w
      | Inr w' \<Rightarrow> w')"

definition test_command_line ::
  "js_runtime \<Rightarrow> string \<Rightarrow> server \<Rightarrow> string \<Rightarrow> string \<Rightarrow> string option \<Rightarrow> string option \<Rightarrow>
   string list option \<Rightarrow> string option \<Rightarrow> string" where
  "test_command_line rt now srv projectPath scheme configuration testIdentifier skipTests destination =
     test_command projectPath scheme
       (case configuration of None \<Rightarrow> ''Debug'' | Some c \<Rightarrow> c)
       (case destination of None \<Rightarrow> default_destination | Some d \<Rightarrow> d)
       (test_bundle_path rt projectPath now)
       (testFlags testIdentifier skipTests)
       (test_log_path rt srv now)"

definition tests_succeeded :: "string \<Rightarrow> bool" where
  "tests_succeeded stdout \<longleftrightarrow>
     \<not> js_includes stdout ''** TEST FAILED **'' \<and> \<not> js_includes stdout ''** BUILD FAILED **''"

definition test_finish ::
  "js_runtime \<Rightarrow> child_process \<Rightarrow> string \<Rightarrow> server \<Rightarrow> string \<Rightarrow> string \<Rightarrow> string \<Rightarrow> world \<Rightarrow>
   (js_exception + invocation_result) \<times> world" where
  "test_finish rt child now srv projectPath stdout stderr w1 =
     (let w2 = (case writeFile (test_log_path rt srv now @ ''.json'')
                       (JSON_stringify_pretty rt (decode_output rt stdout)) w1 of
                  Inl parseError \<Rightarrow> w1
                | Inr w' \<Rightarrow> w');
          w3 = (if existsSync (test_bundle_path rt projectPath now) w2
                then process_test_results rt child (buildLogsDir srv) (timestamp_of now)
                       (test_bundle_path rt projectPath now) w2
                else w2)
      in (Inr \<lparr>success = tests_succeeded stdout, output' = stdout @ stderr,
               logPath = test_log_path rt srv now\<rparr>, w3))"

definition runTests ::
  "js_runtime \<Rightarrow> child_process \<Rightarrow> string \<Rightarrow> server \<Rightarrow> string \<Rightarrow> string \<Rightarrow> string option \<Rightarrow>
   string option \<Rightarrow> string list option \<Rightarrow> string option \<Rightarrow> world \<Rightarrow>
   (js_exception + invocation_result) \<times> world" where
  "runTests rt child now srv projectPath scheme configuration testIdentifier skipTests destination w =
     (case execAsync child
             (test_command_line rt now srv projectPath scheme configuration testIdentifier
                skipTests destination)
             (test_prepare rt projectPath w) of
        (Rejected error, w1) \<Rightarrow> on_exec_error (test_log_path rt srv now) error w1
      | (Resolved stdout stderr, w1) \<Rightarrow> test_finish rt child now srv projectPath stdout stderr w1)"

text \<open>
  \<^verbatim>\<open>buildProject\<close>, likewise. Here the inner \<^verbatim>\<open>try\<close> spans the structured log, the
  result-bundle block and the \<^verbatim>\<open>return\<close>; its \<^verbatim>\<open>catch\<close> returns a failed result
  carrying the raw output. Within it only \<^verbatim>\<open>writeFile\<close> can reject.
\<close>

definition build_log_path :: "js_runtime \<Rightarrow> server \<Rightarrow> string \<Rightarrow> string" where
  "build_log_path rt srv now =
     path_join rt [buildLogsDir srv, ''build-'' @ timestamp_of now @ ''.log'']"

definition build_bundle_path :: "js_runtime \<Rightarrow> string \<Rightarrow> string \<Rightarrow> string" where
  "build_bundle_path rt projectPath now =
     path_join rt [path_dirname rt projectPath, ''Build'', ''Reports-'' @ timestamp_of now]
     @ ''.xcresult''"

definition build_prepare :: "js_runtime \<Rightarrow> string \<Rightarrow> world \<Rightarrow> world" where
  "build_prepare rt projectPath w =
     (case mkdir (path_join rt [path_dirname rt projectPath, ''Build'']) w of
        Inl e \<Rightarrow> w
      | Inr w' \<Rightarrow> w')"

definition build_command_line ::
  "js_runtime \<Rightarrow> string \<Rightarrow> server \<Rightarrow> string \<Rightarrow> string \<Rightarrow> string \<Rightarrow> string option \<Rightarrow> string" where
  "build_command_line rt now srv projectPath scheme configuration destination =
     build_command projectPath scheme configuration
       (case destination of None \<Rightarrow> default_destination | Some d \<Rightarrow> d)
       (build_bundle_path rt projectPath now)
       (build_log_path rt srv now)"

definition build_succeeded :: "string \<Rightarrow> bool" where
  "build_succeeded stdout \<longleftrightarrow> \<not> js_includes stdout ''** BUILD FAILED **''"

definition build_lines :: "js_runtime \<Rightarrow> bool option \<Rightarrow> string \<Rightarrow> json list" where
  "build_lines rt includeWarnings stdout =
     filteredOutput (case includeWarnings of None \<Rightarrow> False | Some b \<Rightarrow> b)
       (decode_output rt stdout)"

definition build_finish ::
  "js_runtime \<Rightarrow> child_process \<Rightarrow> string \<Rightarrow> server \<Rightarrow> string \<Rightarrow> bool option \<Rightarrow> string \<Rightarrow>
   string \<Rightarrow> world \<Rightarrow> (js_exception + invocation_result) \<times> world" where
  "build_finish rt child now srv projectPath includeWarnings stdout stderr w1 =
     (case writeFile (build_log_path rt srv now @ ''.json'')
             (JSON_stringify_pretty rt (build_lines rt includeWarnings stdout)) w1 of
        Inl parseError \<Rightarrow>
          (Inr \<lparr>success = False, output' = stdout @ stderr, logPath = build_log_path rt srv now\<rparr>,
           w1)
      | Inr w2 \<Rightarrow>
          (let w3 = (if existsSync (build_bundle_path rt projectPath now) w2
                     then process_build_results rt child (buildLogsDir srv) (timestamp_of now)
                            (build_bundle_path rt projectPath now) w2
                     else w2)
           in (Inr \<lparr>success = build_succeeded stdout,
                    output' = outputText rt (build_lines rt includeWarnings stdout),
                    logPath = build_log_path rt srv now\<rparr>, w3)))"

definition buildProject ::
  "js_runtime \<Rightarrow> child_process \<Rightarrow> string \<Rightarrow> server \<Rightarrow> string \<Rightarrow> string \<Rightarrow> string \<Rightarrow>
   string option \<Rightarrow> bool option \<Rightarrow> world \<Rightarrow> (js_exception + invocation_result) \<times> world" where
  "buildProject rt child now srv projectPath scheme configuration destination includeWarnings w =
     (case execAsync child
             (build_command_line rt now srv projectPath scheme configuration destination)
             (build_prepare rt projectPath w) of
        (Rejected error, w1) \<Rightarrow> on_exec_error (build_log_path rt srv now) error w1
      | (Resolved stdout stderr, w1) \<Rightarrow>
          build_finish rt child now srv projectPath includeWarnings stdout stderr w1)"

text \<open>
  The child process of an invocation: the command line run on the world that the
  preparation leaves. Its first component is the outcome, its second the world after the
  process has exited.
\<close>

abbreviation build_process ::
  "js_runtime \<Rightarrow> child_process \<Rightarrow> string \<Rightarrow> server \<Rightarrow> string \<Rightarrow> string \<Rightarrow> string \<Rightarrow>
   string option \<Rightarrow> world \<Rightarrow> exec_outcome \<times> world" where
  "build_process rt child now srv projectPath scheme configuration destination w \<equiv>
     execAsync child (build_command_line rt now srv projectPath scheme configuration destination)
       (build_prepare rt projectPath w)"

abbreviation test_process ::
  "js_runtime \<Rightarrow> child_process \<Rightarrow> string \<Rightarrow> server \<Rightarrow> string \<Rightarrow> string \<Rightarrow> string option \<Rightarrow>
   string option \<Rightarrow> string list option \<Rightarrow> string option \<Rightarrow> world \<Rightarrow> exec_outcome \<times> world" where
  "test_process rt child now srv projectPath scheme configuration testIdentifier skipTests
     destination w \<equiv>
     execAsync child
       (test_command_line rt now srv projectPath scheme configuration testIdentifier skipTests
          destination)
       (test_prepare rt projectPath w)"

section \<open>The request handlers\<close>

text \<open>
  The argument guards. \<open>None\<close> is an absent argument bag; an optional field passes when
  it is absent (\<^verbatim>\<open>undefined\<close>) or of the right type. An array passes the
  \<^verbatim>\<open>typeof args === 'object'\<close> test and then fails on \<^verbatim>\<open>projectPath\<close>.
\<close>

definition is_string_field :: "json \<Rightarrow> string \<Rightarrow> bool" where
  "is_string_field a k = (case js_member a k of Some (JString s) \<Rightarrow> True | _ \<Rightarrow> False)"

definition is_optional_string_field :: "json \<Rightarrow> string \<Rightarrow> bool" where
  "is_optional_string_field a k =
     (case js_member a k of None \<Rightarrow> True | Some (JString s) \<Rightarrow> True | _ \<Rightarrow> False)"

definition is_optional_boolean_field :: "json \<Rightarrow> string \<Rightarrow> bool" where
  "is_optional_boolean_field a k =
     (case js_member a k of None \<Rightarrow> True | Some (JBool b) \<Rightarrow> True | _ \<Rightarrow> False)"

fun is_string_value :: "json \<Rightarrow> bool" where
  "is_string_value (JString s) = True"
| "is_string_value v = False"

definition isBuildArguments :: "json option \<Rightarrow> bool" where
  "isBuildArguments args =
     (case args of
        None \<Rightarrow> False
      | Some a \<Rightarrow>
          if js_typeof a \<noteq> TObject \<or> a = JNull then False
          else is_string_field a ''projectPath'' \<and> is_string_field a ''scheme'' \<and>
               is_optional_string_field a ''configuration'' \<and>
               is_optional_string_field a ''destination'')"

definition isBuildOptions :: "json option \<Rightarrow> bool" where
  "isBuildOptions args =
     (if \<not> isBuildArguments args then False
      else (case args of
              None \<Rightarrow> False
            | Some a \<Rightarrow> is_optional_boolean_field a ''includeWarnings''))"

definition isTestArguments :: "json option \<Rightarrow> bool" where
  "isTestArguments args =
     (case args of
        None \<Rightarrow> False
      | Some a \<Rightarrow>
          if js_typeof a \<noteq> TObject \<or> a = JNull then False
          else is_string_field a ''projectPath'' \<and> is_string_field a ''scheme'' \<and>
               is_optional_string_field a ''testIdentifier'' \<and>
               (case js_member a ''skipTests'' of
                  None \<Rightarrow> True
                | Some (JArray ts) \<Rightarrow> list_all is_string_value ts
                | Some v \<Rightarrow> False) \<and>
               is_optional_string_field a ''configuration'' \<and>
               is_optional_string_field a ''destination'')"

text \<open>Reading the fields of an argument bag that has passed its guard.\<close>

definition string_field :: "json \<Rightarrow> string \<Rightarrow> string option" where
  "string_field a k = (case js_member a k of Some (JString s) \<Rightarrow> Some s | _ \<Rightarrow> None)"

definition boolean_field :: "json \<Rightarrow> string \<Rightarrow> bool option" where
  "boolean_field a k = (case js_member a k of Some (JBool b) \<Rightarrow> Some b | _ \<Rightarrow> None)"

fun string_values :: "json list \<Rightarrow> string list" where
  "string_values [] = []"
| "string_values (JString s # vs) = s # string_values vs"
| "string_values (v # vs) = string_values vs"

definition string_array_field :: "json \<Rightarrow> string \<Rightarrow> string list option" where
  "string_array_field a k =
     (case js_member a k of Some (JArray ts) \<Rightarrow> Some (string_values ts) | _ \<Rightarrow> None)"

datatype mcp_code = InvalidRequest | InternalError | InvalidParams | MethodNotFound

datatype failure =
    Thrown js_exception
  | McpError mcp_code string

record tool_request =
  tool_name :: string
  arguments :: "json option"

record tool_response =
  content_text :: string
  isError :: bool

record resource =
  resource_uri :: string
  resource_name :: string
  mimeType :: string
  description :: string

record resource_contents =
  contents_uri :: string
  contents_mimeType :: string
  contents_text :: string

text \<open>The constructor: the pointer starts as \<^verbatim>\<open>null\<close>; an empty base directory is refused.\<close>

definition new_server :: "js_runtime \<Rightarrow> string \<Rightarrow> js_exception + server" where
  "new_server rt dir =
     (if dir = [] then Inl (ErrorValue ''Base directory is required'' None)
      else Inr \<lparr>baseDir = dir, buildLogsDir = path_join rt [dir, ''build-logs''],
               latestBuildLog = None\<rparr>)"

text \<open>
  The \<^verbatim>\<open>CallToolRequestSchema\<close> handler. The pointer is assigned after the pipeline has
  returned a result; when the pipeline throws, or the guard refuses the arguments, the
  assignment is not reached.
\<close>

definition respond ::
  "server \<Rightarrow> (js_exception + invocation_result) \<times> world \<Rightarrow>
   (failure + tool_response) \<times> server \<times> world" where
  "respond srv rw =
     (case rw of
        (Inl e, w) \<Rightarrow> (Inl (Thrown e), srv, w)
      | (Inr result, w) \<Rightarrow>
          (Inr \<lparr>content_text = output' result, isError = \<not> success result\<rparr>,
           srv\<lparr>latestBuildLog := Some (logPath result)\<rparr>, w))"

definition call_tool ::
  "js_runtime \<Rightarrow> child_process \<Rightarrow> string \<Rightarrow> tool_request \<Rightarrow> server \<Rightarrow> world \<Rightarrow>
   (failure + tool_response) \<times> server \<times> world" where
  "call_tool rt child now request srv w =
     (if tool_name request = ''build_project'' then
        (if \<not> isBuildOptions (arguments request)
         then (Inl (McpError InvalidParams ''Invalid build arguments provided''), srv, w)
         else (case arguments request of
                 None \<Rightarrow> (Inl (McpError InvalidParams ''Invalid build arguments provided''), srv, w)
               | Some a \<Rightarrow>
                   respond srv
                     (buildProject rt child now srv
                        (case string_field a ''projectPath'' of None \<Rightarrow> [] | Some s \<Rightarrow> s)
                        (case string_field a ''scheme'' of None \<Rightarrow> [] | Some s \<Rightarrow> s)
                        (case string_field a ''configuration'' of None \<Rightarrow> ''Debug'' | Some c \<Rightarrow> c)
                        (string_field a ''destination'')
                        (Some (case boolean_field a ''includeWarnings'' of
                                 None \<Rightarrow> False
                               | Some b \<Rightarrow> b))
                        w)))
      else if tool_name request = ''run_tests'' then
        (if \<not> isTestArguments (arguments request)
         then (Inl (McpError InvalidParams ''Invalid test arguments provided''), srv, w)
         else (case arguments request of
                 None \<Rightarrow> (Inl (McpError InvalidParams ''Invalid test arguments provided''), srv, w)
               | Some a \<Rightarrow>
                   respond srv
                     (runTests rt child now srv
                        (case string_field a ''projectPath'' of None \<Rightarrow> [] | Some s \<Rightarrow> s)
                        (case string_field a ''scheme'' of None \<Rightarrow> [] | Some s \<Rightarrow> s)
                        (string_field a ''configuration'')
                        (string_field a ''testIdentifier'')
                        (string_array_field a ''skipTests'')
                        (string_field a ''destination'')
                        w)))
      else (Inl (McpError MethodNotFound (''Unknown tool: '' @ tool_name request)), srv, w))"

text \<open>
  The resource handlers. The pointer is tested for truthiness: \<^verbatim>\<open>null\<close> and the empty
  string are falsy.
\<close>

definition latest_log_uri :: string where
  "latest_log_uri = ''xcode-build://latest-log''"

definition list_resources :: "server \<Rightarrow> resource list" where
  "list_resources srv =
     (case latestBuildLog srv of
        None \<Rightarrow> []
      | Some p \<Rightarrow>
          if p = [] then []
          else [\<lparr>resource_uri = latest_log_uri, resource_name = ''Latest Xcode Build Log'',
                 mimeType = ''text/plain'', description = ''Most recent Xcode build output''\<rparr>])"

definition read_resource :: "server \<Rightarrow> string \<Rightarrow> world \<Rightarrow> failure + resource_contents list" where
  "read_resource srv uri w =
     (case latestBuildLog srv of
        None \<Rightarrow> Inl (McpError InvalidRequest (''Unknown resource: '' @ uri))
      | Some p \<Rightarrow>
          if uri \<noteq> latest_log_uri \<or> p = []
          then Inl (McpError InvalidRequest (''Unknown resource: '' @ uri))
          else (case readFile p w of
                  Inr logContent \<Rightarrow>
                    Inr [\<lparr>contents_uri = uri, contents_mimeType = ''text/plain'',
                          contents_text = logContent\<rparr>]
                | Inl message \<Rightarrow>
                    Inl (McpError InternalError (''Failed to read build log: Error: '' @ message))))"

section \<open>Notions used to state the properties\<close>

text \<open>
  The structured record of the specification's data model: a record with a \<^verbatim>\<open>type\<close>
  and, when the type is \<^verbatim>\<open>"diagnostic"\<close>, a \<^verbatim>\<open>severity\<close>. Both are fields of the record
  itself.
\<close>

definition record_type :: "(string \<times> json) list \<Rightarrow> json option" where
  "record_type kvs = map_of kvs ''type''"

definition record_severity :: "(string \<times> json) list \<Rightarrow> json option" where
  "record_severity kvs = map_of kvs ''severity''"

text \<open>
  The raw log path of an invocation made through the tool handler, and the one resource
  the list handler can return.
\<close>

definition invocation_log_path :: "js_runtime \<Rightarrow> server \<Rightarrow> string \<Rightarrow> tool_request \<Rightarrow> string" where
  "invocation_log_path rt srv now request =
     (if tool_name request = ''build_project'' then build_log_path rt srv now
      else test_log_path rt srv now)"

definition latest_log_resource :: resource where
  "latest_log_resource =
     \<lparr>resource_uri = ''xcode-build://latest-log'', resource_name = ''Latest Xcode Build Log'',
      mimeType = ''text/plain'', description = ''Most recent Xcode build output''\<rparr>"

section \<open>A concrete environment\<close>

text \<open>
  The theorems below hold for every run time, child process and disk. To evaluate the
  model on concrete inputs, this section fixes a small environment: a run time whose
  parser knows three structured lines and rejects every other line, as \<^verbatim>\<open>JSON.parse\<close>
  rejects the plain-text lines used below; joins and directory names as \<^verbatim>\<open>path\<close> computes
  them for plain absolute paths; and a scripted child process that answers the
  \<^verbatim>\<open>xcodebuild\<close> command line with a given outcome and change of the disk, and every
  other command line with a second outcome.
\<close>

definition error_line :: string where
  \<open>error_line = ''{"type":"diagnostic","diagnostic":{"severity":"error"}}''\<close>

definition warning_line :: string where
  \<open>warning_line = ''{"type":"diagnostic","diagnostic":{"severity":"warning"}}''\<close>

definition error_record :: json where
  "error_record =
     JObject [(''type'', JString ''diagnostic''),
              (''diagnostic'', JObject [(''severity'', JString ''error'')])]"

definition warning_record :: json where
  "warning_record =
     JObject [(''type'', JString ''diagnostic''),
              (''diagnostic'', JObject [(''severity'', JString ''warning'')])]"

definition flat_line :: string where
  \<open>flat_line = ''{"type":"diagnostic","severity":"error"}''\<close>

definition flat_record :: json where
  "flat_record = JObject [(''type'', JString ''diagnostic''), (''severity'', JString ''error'')]"

definition demo_stringify :: "json \<Rightarrow> string" where
  \<open>demo_stringify v =
     (case v of
        JString s \<Rightarrow> ''"'' @ s @ ''"''
      | _ \<Rightarrow> if v = error_record then error_line
             else if v = warning_record then warning_line
             else if v = flat_record then flat_line
             else ''null'')\<close>

definition demo_dirname :: "string \<Rightarrow> string" where
  "demo_dirname p = js_join ''/'' (butlast (js_split (CHR ''/'') p))"

definition demo_runtime :: js_runtime where
  "demo_runtime =
     \<lparr>JSON_parse = map_of [(error_line, error_record), (warning_line, warning_record),
                           (flat_line, flat_record)],
      JSON_stringify = demo_stringify,
      JSON_stringify_pretty = (\<lambda>lines. ''['' @ js_join '','' (map demo_stringify lines) @ '']''),
      path_join = js_join ''/'',
      path_dirname = demo_dirname\<rparr>"

definition scripted_child :: "exec_outcome \<Rightarrow> (disk \<Rightarrow> disk) \<Rightarrow> exec_outcome \<Rightarrow> child_process" where
  "scripted_child main effect other command d =
     (if prefix ''which xcodebuild && xcodebuild'' command then (main, effect d) else (other, d))"

definition fresh_world :: "(string \<rightharpoonup> string) \<Rightarrow> world" where
  "fresh_world refusals =
     \<lparr>on_disk = \<lparr>files = Map.empty, dirs = {}, denied = refusals\<rparr>, issued = []\<rparr>"

definition demo_server :: server where
  "demo_server =
     \<lparr>baseDir = ''/logs'', buildLogsDir = ''/logs/build-logs'', latestBuildLog = None\<rparr>"

definition demo_now :: string where
  "demo_now = ''2024-01-02T03:04:05.678Z''"

definition demo_project :: string where
  "demo_project = ''/proj/App.xcodeproj''"

definition command_failed :: exec_outcome where
  "command_failed = Rejected (ErrorValue ''Command failed'' None)"

definition demo_build_log :: string where
  "demo_build_log = ''/logs/build-logs/build-2024-01-02T03-04-05-678Z.log''"

definition demo_build_bundle :: string where
  "demo_build_bundle = ''/proj/Build/Reports-2024-01-02T03-04-05-678Z.xcresult''"

definition log_refused :: "string \<rightharpoonup> string" where
  "log_refused = [demo_build_log \<mapsto> ''EACCES: permission denied'']"

definition tee_failed :: exec_outcome where
  "tee_failed =
     Rejected (ErrorValue ''Command failed'' (Some ''tee: build.log: Permission denied''))"

definition demo_test_bundle :: string where
  "demo_test_bundle = ''/proj/TestReports/Reports-2024-01-02T03-04-05-678Z.xcresult''"

definition leave_bundle :: "string \<Rightarrow> disk \<Rightarrow> disk" where
  "leave_bundle bundle d = d\<lparr>dirs := insert bundle (dirs d)\<rparr>"

definition tee_log :: "string \<Rightarrow> disk \<Rightarrow> disk" where
  "tee_log content d = d\<lparr>files := (files d)(demo_build_log \<mapsto> content)\<rparr>"

definition demo_request :: tool_request where
  "demo_request =
     \<lparr>tool_name = ''build_project'',
      arguments = Some (JObject [(''projectPath'', JString ''/proj/App.xcodeproj''),
                                 (''scheme'', JString ''App'')])\<rparr>"

definition demo_build_output :: string where
  "demo_build_output = ''/usr/bin/xcodebuild\<newline>** BUILD SUCCEEDED **''"

definition demo_test_log :: string where
  "demo_test_log = ''/logs/build-logs/test-2024-01-02T03-04-05-678Z.log''"

definition test_log_refused :: "string \<rightharpoonup> string" where
  "test_log_refused = [demo_test_log \<mapsto> ''EACCES: permission denied'']"

definition test_json_log_refused :: "string \<rightharpoonup> string" where
  "test_json_log_refused =
     [''/logs/build-logs/test-2024-01-02T03-04-05-678Z.log.json'' \<mapsto>
        ''EACCES: permission denied'']"

definition json_log_refused :: "string \<rightharpoonup> string" where
  "json_log_refused =
     [''/logs/build-logs/build-2024-01-02T03-04-05-678Z.log.json'' \<mapsto>
        ''EACCES: permission denied'']"

section \<open>Evaluation rules and auxiliary lemmas\<close>

lemmas pipeline_defs =
  buildProject_def runTests_def build_finish_def test_finish_def on_exec_error_def
  execAsync_def writeFile_def mkdir_def existsSync_def build_prepare_def test_prepare_def
  process_build_results_def process_test_results_def bundle_json_command_def
  bundle_text_command_def coverage_command_def errorOutput_def

lemmas demo_defs =
  demo_runtime_def demo_server_def demo_now_def demo_project_def scripted_child_def
  fresh_world_def demo_dirname_def demo_stringify_def command_failed_def
  error_line_def warning_line_def flat_line_def error_record_def warning_record_def
  flat_record_def
  demo_build_log_def demo_build_bundle_def demo_test_bundle_def log_refused_def tee_failed_def
      leave_bundle_def
  tee_log_def

lemmas path_defs =
  build_log_path_def test_log_path_def build_bundle_path_def test_bundle_path_def
  timestamp_of_def build_command_line_def test_command_line_def build_command_def
  test_command_def testFlags_def gap_def squote_def default_destination_def

lemmas classifier_defs =
  decode_output_def kept_lines_def decode_line_def js_trim_def is_js_space_def
  build_lines_def filteredOutput_def filterBuildOutput_def outputText_def render_line_def
  js_startsWith_def matches_error_location_def location_tail_def digits_then_def
  is_digit_def is_line_terminator_def build_succeeded_def tests_succeeded_def

lemmas handler_defs =
  call_tool_def respond_def isBuildOptions_def isBuildArguments_def is_string_field_def
  is_optional_string_field_def is_optional_boolean_field_def string_field_def
  boolean_field_def demo_request_def demo_build_output_def

lemma dropWhile_all_iff: "(\<forall>x\<in>set (dropWhile P s). P x) \<longleftrightarrow> dropWhile P s = []"
proof
  assume all: "\<forall>x\<in>set (dropWhile P s). P x"
  show "dropWhile P s = []"
  proof (rule ccontr)
    assume ne: "dropWhile P s \<noteq> []"
    then have "\<not> P (hd (dropWhile P s))" by (rule hd_dropWhile)
    moreover from ne have "hd (dropWhile P s) \<in> set (dropWhile P s)" by simp
    ultimately show False using all by blast
  qed
qed (auto dest: set_dropWhileD)

lemma js_trim_Nil_iff: "js_trim s = [] \<longleftrightarrow> list_all is_js_space s"
proof -
  have "js_trim s = [] \<longleftrightarrow> (\<forall>x\<in>set (dropWhile is_js_space s). is_js_space x)"
    by (simp add: js_trim_def dropWhile_eq_Nil_conv)
  also have "\<dots> \<longleftrightarrow> dropWhile is_js_space s = []"
    by (rule dropWhile_all_iff)
  finally show ?thesis
    by (simp add: dropWhile_eq_Nil_conv list_all_iff)
qed

section \<open>The string primitives against their usual reading\<close>

text \<open>
  The recursive definitions above compute what the JavaScript methods are documented to
  return: joining the pieces of a split with the separator gives the string back and no
  piece contains the separator; \<^verbatim>\<open>includes\<close> is the contiguous-sublist relation; the
  matcher accepts exactly the lines of the shape
  \<^verbatim>\<open>/<path>:<digits>:<digits>: error:<rest>\<close> with a non-empty path free of line
  terminators.
\<close>

lemma js_split_not_Nil: "js_split sep s \<noteq> []"
  by (induction s) (auto split: list.splits)

lemma js_split_concat: "js_join [sep] (js_split sep s) = s"
proof (induction s)
  case Nil
  then show ?case by simp
next
  case (Cons c s)
  obtain piece pieces where p: "js_split sep s = piece # pieces"
    using js_split_not_Nil [of sep s] by (cases "js_split sep s") auto
  with Cons show ?case
    by (cases pieces) auto
qed

lemma js_split_pieces: "piece \<in> set (js_split sep s) \<Longrightarrow> sep \<notin> set piece"
  by (induction s arbitrary: piece) (auto split: if_splits list.splits)

lemma js_includes_sublist: "js_includes s p \<longleftrightarrow> sublist p s"
  by (induction s) (auto simp: sublist_Cons_right)

lemma digits_then_Some:
  "digits_then s = Some rest \<longleftrightarrow>
     (\<exists>ds. s = ds @ rest \<and> ds \<noteq> [] \<and> list_all is_digit ds
           \<and> (case rest of [] \<Rightarrow> True | c # cs \<Rightarrow> \<not> is_digit c))"
proof
  assume "digits_then s = Some rest"
  then have t: "takeWhile is_digit s \<noteq> []" and r: "rest = dropWhile is_digit s"
    by (auto simp: digits_then_def split: if_splits)
  have "s = takeWhile is_digit s @ rest"
    by (simp add: r)
  moreover have "list_all is_digit (takeWhile is_digit s)"
    by (auto simp: list_all_iff dest: set_takeWhileD)
  moreover have "case rest of [] \<Rightarrow> True | c # cs \<Rightarrow> \<not> is_digit c"
  proof (cases rest)
    case Nil
    then show ?thesis by simp
  next
    case (Cons c cs)
    then have "dropWhile is_digit s \<noteq> []" by (simp add: r [symmetric])
    then have "\<not> is_digit (hd (dropWhile is_digit s))" by (rule hd_dropWhile)
    with Cons show ?thesis by (simp add: r [symmetric])
  qed
  ultimately show "\<exists>ds. s = ds @ rest \<and> ds \<noteq> [] \<and> list_all is_digit ds
           \<and> (case rest of [] \<Rightarrow> True | c # cs \<Rightarrow> \<not> is_digit c)"
    using t by blast
next
  assume "\<exists>ds. s = ds @ rest \<and> ds \<noteq> [] \<and> list_all is_digit ds
           \<and> (case rest of [] \<Rightarrow> True | c # cs \<Rightarrow> \<not> is_digit c)"
  then obtain ds where s: "s = ds @ rest" and ne: "ds \<noteq> []" and d: "list_all is_digit ds"
    and r: "case rest of [] \<Rightarrow> True | c # cs \<Rightarrow> \<not> is_digit c"
    by blast
  from d r have "takeWhile is_digit s = ds" "dropWhile is_digit s = rest"
    by (auto simp: s list_all_iff takeWhile_append2 dropWhile_append2 split: list.splits)
  with ne show "digits_then s = Some rest"
    by (simp add: digits_then_def)
qed

lemma colon_not_digit: "\<not> is_digit (CHR '':'')"
  by (simp add: is_digit_def)

lemma location_tail_iff:
  "location_tail s \<longleftrightarrow>
     (\<exists>line col rest.
         s = '':'' @ line @ '':'' @ col @ '': error:'' @ rest
       \<and> line \<noteq> [] \<and> list_all is_digit line \<and> col \<noteq> [] \<and> list_all is_digit col)"
proof
  assume "location_tail s"
  then obtain s1 s3 s4 where s: "s = CHR '':'' # s1"
    and d1: "digits_then s1 = Some (CHR '':'' # s3)"
    and d2: "digits_then s3 = Some s4" and p: "prefix '': error:'' s4"
    by (auto simp: location_tail_def split: list.splits option.splits)
  from d1 obtain line where l: "s1 = line @ CHR '':'' # s3" "line \<noteq> []" "list_all is_digit line"
    by (auto simp: digits_then_Some)
  from d2 obtain col where c: "s3 = col @ s4" "col \<noteq> []" "list_all is_digit col"
    by (auto simp: digits_then_Some)
  from p obtain rest where r: "s4 = '': error:'' @ rest"
    by (auto simp: prefix_def)
  from s l c r show "\<exists>line col rest.
         s = '':'' @ line @ '':'' @ col @ '': error:'' @ rest
       \<and> line \<noteq> [] \<and> list_all is_digit line \<and> col \<noteq> [] \<and> list_all is_digit col"
    by auto
next
  assume "\<exists>line col rest.
         s = '':'' @ line @ '':'' @ col @ '': error:'' @ rest
       \<and> line \<noteq> [] \<and> list_all is_digit line \<and> col \<noteq> [] \<and> list_all is_digit col"
  then obtain line col rest where s: "s = '':'' @ line @ '':'' @ col @ '': error:'' @ rest"
    and l: "line \<noteq> []" "list_all is_digit line" and c: "col \<noteq> []" "list_all is_digit col"
    by blast
  have d2: "digits_then (col @ '': error:'' @ rest) = Some ('': error:'' @ rest)"
    using c by (subst digits_then_Some) (auto simp: colon_not_digit)
  have d1: "digits_then (line @ '':'' @ col @ '': error:'' @ rest)
            = Some ('':'' @ col @ '': error:'' @ rest)"
    using l by (subst digits_then_Some) (auto simp: colon_not_digit)
  show "location_tail s"
    using d1 d2 by (simp add: location_tail_def s)
qed

lemma dot_plus_rest_iff:
  "dot_plus_rest s \<longleftrightarrow>
     (\<exists>more tail. s = more @ tail \<and> list_all (\<lambda>c. \<not> is_line_terminator c) more
                  \<and> location_tail tail)"
proof (induction s)
  case Nil
  then show ?case by (simp add: location_tail_def)
next
  case (Cons c s)
  show ?case
  proof
    assume "dot_plus_rest (c # s)"
    then consider "location_tail (c # s)" | "\<not> is_line_terminator c" "dot_plus_rest s"
      by auto
    then show "\<exists>more tail. c # s = more @ tail \<and> list_all (\<lambda>c. \<not> is_line_terminator c) more
                  \<and> location_tail tail"
    proof cases
      case 1
      then have "c # s = [] @ (c # s) \<and> list_all (\<lambda>c. \<not> is_line_terminator c) []
                 \<and> location_tail (c # s)" by simp
      then show ?thesis by blast
    next
      case 2
      with Cons.IH obtain more tail where "s = more @ tail"
        "list_all (\<lambda>c. \<not> is_line_terminator c) more" "location_tail tail" by blast
      with 2 have "c # s = (c # more) @ tail
          \<and> list_all (\<lambda>c. \<not> is_line_terminator c) (c # more) \<and> location_tail tail"
        by simp
      then show ?thesis by blast
    qed
  next
    assume "\<exists>more tail. c # s = more @ tail \<and> list_all (\<lambda>c. \<not> is_line_terminator c) more
                  \<and> location_tail tail"
    then obtain more tail where m: "c # s = more @ tail"
      "list_all (\<lambda>c. \<not> is_line_terminator c) more" "location_tail tail" by blast
    show "dot_plus_rest (c # s)"
    proof (cases more)
      case Nil
      with m have "location_tail (c # s)" by simp
      then show ?thesis by simp
    next
      case (Cons c' more')
      with m have "s = more' @ tail" "list_all (\<lambda>c. \<not> is_line_terminator c) more'"
        "\<not> is_line_terminator c" by auto
      with m(3) Cons.IH show ?thesis by auto
    qed
  qed
qed

lemma matches_error_location_iff:
  "matches_error_location line \<longleftrightarrow>
     (\<exists>path lnum col rest.
         line = ''/'' @ path @ '':'' @ lnum @ '':'' @ col @ '': error:'' @ rest
       \<and> path \<noteq> [] \<and> list_all (\<lambda>c. \<not> is_line_terminator c) path
       \<and> lnum \<noteq> [] \<and> list_all is_digit lnum \<and> col \<noteq> [] \<and> list_all is_digit col)"
proof
  assume "matches_error_location line"
  then obtain d rest' where l: "line = CHR ''/'' # d # rest'" and d: "\<not> is_line_terminator d"
    and r: "dot_plus_rest rest'"
    by (auto simp: matches_error_location_def split: list.splits)
  from r obtain more tail where t: "rest' = more @ tail"
    "list_all (\<lambda>c. \<not> is_line_terminator c) more" "location_tail tail"
    by (auto simp: dot_plus_rest_iff)
  from t(3) obtain lnum col rest where
    "tail = '':'' @ lnum @ '':'' @ col @ '': error:'' @ rest"
    "lnum \<noteq> []" "list_all is_digit lnum" "col \<noteq> []" "list_all is_digit col"
    by (auto simp: location_tail_iff)
  with l d t have "line = ''/'' @ (d # more) @ '':'' @ lnum @ '':'' @ col @ '': error:'' @ rest
       \<and> d # more \<noteq> [] \<and> list_all (\<lambda>c. \<not> is_line_terminator c) (d # more)
       \<and> lnum \<noteq> [] \<and> list_all is_digit lnum \<and> col \<noteq> [] \<and> list_all is_digit col"
    by simp
  then show "\<exists>path lnum col rest.
         line = ''/'' @ path @ '':'' @ lnum @ '':'' @ col @ '': error:'' @ rest
       \<and> path \<noteq> [] \<and> list_all (\<lambda>c. \<not> is_line_terminator c) path
       \<and> lnum \<noteq> [] \<and> list_all is_digit lnum \<and> col \<noteq> [] \<and> list_all is_digit col"
    by blast
next
  assume "\<exists>path lnum col rest.
         line = ''/'' @ path @ '':'' @ lnum @ '':'' @ col @ '': error:'' @ rest
       \<and> path \<noteq> [] \<and> list_all (\<lambda>c. \<not> is_line_terminator c) path
       \<and> lnum \<noteq> [] \<and> list_all is_digit lnum \<and> col \<noteq> [] \<and> list_all is_digit col"
  then obtain path lnum col rest where
    l: "line = ''/'' @ path @ '':'' @ lnum @ '':'' @ col @ '': error:'' @ rest"
    and p: "path \<noteq> []" "list_all (\<lambda>c. \<not> is_line_terminator c) path"
    and n: "lnum \<noteq> []" "list_all is_digit lnum" "col \<noteq> []" "list_all is_digit col"
    by blast
  from p obtain d more where pm: "path = d # more" by (cases path) auto
  from n have "location_tail ('':'' @ lnum @ '':'' @ col @ '': error:'' @ rest)"
    unfolding location_tail_iff by blast
  with p pm have "dot_plus_rest (more @ '':'' @ lnum @ '':'' @ col @ '': error:'' @ rest)"
    unfolding dot_plus_rest_iff by auto
  with p pm show "matches_error_location line"
    by (simp add: matches_error_location_def l)
qed

lemma matches_error_location_examples:
  "matches_error_location ''/src/App.swift:12:3: error: cannot find x in scope''"
  "\<not> matches_error_location ''/src/App.swift:12:3: warning: unused variable''"
  "\<not> matches_error_location ''src/App.swift:12:3: error: relative path''"
  "\<not> matches_error_location ''/:1:2: error: no path''"
  by (simp_all add: matches_error_location_def location_tail_def digits_then_def is_digit_def
        is_line_terminator_def)

section \<open>The concrete environment evaluated\<close>

lemma demo_build_resolves:
  "fst (execAsync (scripted_child (Resolved out err) effect other)
      (build_command_line demo_runtime demo_now demo_server demo_project ''App'' ''Debug'' None)
      (build_prepare demo_runtime demo_project w)) = Resolved out err"
  by (simp add: execAsync_def scripted_child_def build_command_line_def build_command_def
        split: prod.splits)

lemma demo_test_resolves:
  "fst (execAsync (scripted_child (Resolved out err) effect other)
      (test_command_line demo_runtime demo_now demo_server demo_project ''App'' None tid skips None)
      (test_prepare demo_runtime demo_project w)) = Resolved out err"
  by (simp add: execAsync_def scripted_child_def test_command_line_def test_command_def
        split: prod.splits)

lemma build_process_resolved:
  "fst (build_process rt child now srv projectPath scheme configuration destination w)
     = Resolved stdout stderr \<Longrightarrow>
   buildProject rt child now srv projectPath scheme configuration destination includeWarnings w
   = build_finish rt child now srv projectPath includeWarnings stdout stderr
       (snd (build_process rt child now srv projectPath scheme configuration destination w))"
  by (auto simp: buildProject_def split: prod.splits exec_outcome.splits)


lemma build_process_rejected:
  "fst (build_process rt child now srv projectPath scheme configuration destination w)
     = Rejected e \<Longrightarrow>
   buildProject rt child now srv projectPath scheme configuration destination includeWarnings w
   = on_exec_error (build_log_path rt srv now) e
       (snd (build_process rt child now srv projectPath scheme configuration destination w))"
  by (auto simp: buildProject_def split: prod.splits exec_outcome.splits)

lemma test_process_rejected:
  "fst (test_process rt child now srv projectPath scheme configuration testIdentifier skipTests
          destination w) = Rejected e \<Longrightarrow>
   runTests rt child now srv projectPath scheme configuration testIdentifier skipTests destination w
   = on_exec_error (test_log_path rt srv now) e
       (snd (test_process rt child now srv projectPath scheme configuration testIdentifier
               skipTests destination w))"
  by (auto simp: runTests_def split: prod.splits exec_outcome.splits)

lemma demo_build_process:
  "build_process demo_runtime (scripted_child main effect other) demo_now demo_server
     demo_project ''App'' ''Debug'' None (fresh_world refusals)
   = (main,
      \<lparr>on_disk = effect \<lparr>files = Map.empty,
                           dirs = (case refusals ''/proj/Build'' of
                                     None \<Rightarrow> {''/proj/Build''} | Some msg \<Rightarrow> {}),
                           denied = refusals\<rparr>,
        issued = [build_command_line demo_runtime demo_now demo_server demo_project ''App''
                    ''Debug'' None]\<rparr>)"
  by (simp add: execAsync_def scripted_child_def build_command_line_def build_command_def
        build_prepare_def mkdir_def fresh_world_def demo_runtime_def demo_project_def
        demo_dirname_def split: option.splits)




lemma demo_build_log_path:
  "build_log_path demo_runtime demo_server demo_now = demo_build_log"
  by (simp add: build_log_path_def demo_runtime_def demo_server_def demo_now_def
        timestamp_of_def demo_build_log_def)

section \<open>Success is decided by the failure banners\<close>

text \<open>
  C1. When the child process of a build completes and its captured stdout contains
  \<^verbatim>\<open>** BUILD FAILED **\<close>, \<^verbatim>\<open>buildProject\<close> returns a result whose success flag is false;
  when the child process of a test run completes and its stdout contains
  \<^verbatim>\<open>** BUILD FAILED **\<close> or \<^verbatim>\<open>** TEST FAILED **\<close>, \<^verbatim>\<open>runTests\<close> returns a result whose
  success flag is false. \<^verbatim>\<open>execAsync\<close> resolves only for exit code zero, so the flag is
  false whatever the exit code.
\<close>

theorem banner_forces_failure:
  "(fst (build_process rt child now srv projectPath scheme configuration destination w) =
      Resolved stdout stderr \<longrightarrow>
    js_includes stdout ''** BUILD FAILED **'' \<longrightarrow>
    (\<exists>r w'. buildProject rt child now srv projectPath scheme configuration destination
               includeWarnings w = (Inr r, w') \<and> success r = False))
   \<and>
   (fst (test_process rt child now srv projectPath scheme tconfiguration testIdentifier
       skipTests destination w) = Resolved stdout stderr \<longrightarrow>
    js_includes stdout ''** BUILD FAILED **'' \<or> js_includes stdout ''** TEST FAILED **'' \<longrightarrow>
    (\<exists>r w'. runTests rt child now srv projectPath scheme tconfiguration testIdentifier skipTests
               destination w = (Inr r, w') \<and> success r = False))"
  by (auto simp: buildProject_def runTests_def build_finish_def test_finish_def Let_def
        build_succeeded_def tests_succeeded_def split: sum.splits prod.splits)

text \<open>A build and a test run whose output carries the build banner.\<close>

theorem banner_forces_failure_witness:
  "fst (build_process demo_runtime (scripted_child (Resolved ''** BUILD FAILED **'' []) id
      command_failed) demo_now demo_server demo_project ''App'' ''Debug'' None (fresh_world
      Map.empty))
     = Resolved ''** BUILD FAILED **'' []
   \<and> js_includes ''** BUILD FAILED **'' ''** BUILD FAILED **''
   \<and> (\<exists>r w'. buildProject demo_runtime
                (scripted_child (Resolved ''** BUILD FAILED **'' []) id command_failed)
                demo_now demo_server demo_project ''App'' ''Debug'' None None
                (fresh_world Map.empty) = (Inr r, w') \<and> success r = False)
   \<and> fst (test_process demo_runtime (scripted_child (Resolved ''** BUILD FAILED **'' []) id
       command_failed) demo_now demo_server demo_project ''App'' None None None None
       (fresh_world Map.empty))
     = Resolved ''** BUILD FAILED **'' []
   \<and> (\<exists>r w'. runTests demo_runtime
                (scripted_child (Resolved ''** BUILD FAILED **'' []) id command_failed)
                demo_now demo_server demo_project ''App'' None None None None
                (fresh_world Map.empty) = (Inr r, w') \<and> success r = False)"
proof -
  let ?child = "scripted_child (Resolved ''** BUILD FAILED **'' []) id command_failed"
  have b: "fst (build_process demo_runtime ?child demo_now demo_server demo_project ''App''
      ''Debug'' None (fresh_world Map.empty))
     = Resolved ''** BUILD FAILED **'' []"
    by (simp add: execAsync_def scripted_child_def build_command_line_def build_command_def
          split: prod.splits)
  have t: "fst (test_process demo_runtime ?child demo_now demo_server demo_project ''App'' None
      None None None (fresh_world Map.empty))
     = Resolved ''** BUILD FAILED **'' []"
    by (simp add: execAsync_def scripted_child_def test_command_line_def test_command_def
          split: prod.splits)
  have i: "js_includes ''** BUILD FAILED **'' ''** BUILD FAILED **''" by simp
  from banner_forces_failure [of ?child demo_runtime demo_now demo_server demo_project "''App''"
      "''Debug''" None "fresh_world Map.empty" "''** BUILD FAILED **''" "[]" None None None None]
    b t i
  show ?thesis by blast
qed

text \<open>
  Where the success flag follows the banners: a test run whose child process completes
  with neither banner in stdout returns success=true, and so does a build whose child
  process completes without \<^verbatim>\<open>** BUILD FAILED **\<close> in stdout, once its structured log
  \<^verbatim>\<open><logPath>.json\<close> has been written.
\<close>

lemma success_without_banner_when_logged:
  "(fst (test_process rt child now srv projectPath scheme tconfiguration testIdentifier
      skipTests destination w) = Resolved stdout stderr \<longrightarrow>
    \<not> js_includes stdout ''** BUILD FAILED **'' \<longrightarrow>
    \<not> js_includes stdout ''** TEST FAILED **'' \<longrightarrow>
    (\<exists>r w'. runTests rt child now srv projectPath scheme tconfiguration testIdentifier skipTests
               destination w = (Inr r, w') \<and> success r = True))
   \<and>
   (fst (build_process rt child now srv projectPath scheme configuration destination w) =
       Resolved stdout stderr \<longrightarrow>
    \<not> js_includes stdout ''** BUILD FAILED **'' \<longrightarrow>
    denied (on_disk (snd (build_process rt child now srv projectPath scheme configuration
        destination w)))
      (build_log_path rt srv now @ ''.json'') = None \<longrightarrow>
    (\<exists>r w'. buildProject rt child now srv projectPath scheme configuration destination
               includeWarnings w = (Inr r, w') \<and> success r = True))"
  by (auto simp: buildProject_def runTests_def build_finish_def test_finish_def Let_def
        build_succeeded_def tests_succeeded_def writeFile_def
        split: sum.splits prod.splits option.splits)

text \<open>
  C5. Whenever the child process completes and stdout carries no failure banner, the
  result is to have success=true. \<^verbatim>\<open>buildProject\<close> breaks this when the write of the
  structured log is rejected: the \<^verbatim>\<open>catch\<close> of its inner \<^verbatim>\<open>try\<close> returns success=false,
  although stdout is \<^verbatim>\<open>** BUILD SUCCEEDED **\<close>. \<^verbatim>\<open>runTests\<close>, whose inner \<^verbatim>\<open>try\<close> ends
  before the result is formed, returns success=true under the same rejection.
\<close>

theorem refused_structured_log_fails_build:
  "fst (build_process demo_runtime
          (scripted_child (Resolved ''** BUILD SUCCEEDED **'' []) id command_failed)
          demo_now demo_server demo_project ''App'' ''Debug'' None (fresh_world json_log_refused))
     = Resolved ''** BUILD SUCCEEDED **'' []
   \<and> js_includes ''** BUILD SUCCEEDED **'' ''** BUILD FAILED **'' = False
   \<and> js_includes ''** BUILD SUCCEEDED **'' ''** TEST FAILED **'' = False
   \<and> fst (buildProject demo_runtime
            (scripted_child (Resolved ''** BUILD SUCCEEDED **'' []) id command_failed)
            demo_now demo_server demo_project ''App'' ''Debug'' None None
            (fresh_world json_log_refused))
     = Inr \<lparr>success = False, output' = ''** BUILD SUCCEEDED **'',
             logPath = ''/logs/build-logs/build-2024-01-02T03-04-05-678Z.log''\<rparr>
   \<and> fst (runTests demo_runtime
            (scripted_child (Resolved ''** BUILD SUCCEEDED **'' []) id command_failed)
            demo_now demo_server demo_project ''App'' None None None None
            (fresh_world test_json_log_refused))
     = Inr \<lparr>success = True, output' = ''** BUILD SUCCEEDED **'',
             logPath = ''/logs/build-logs/test-2024-01-02T03-04-05-678Z.log''\<rparr>"
  by (simp add: pipeline_defs demo_defs path_defs classifier_defs json_log_refused_def
        test_json_log_refused_def split: prod.splits)

section \<open>What a failed build or test run returns\<close>

text \<open>
  C2, as stated: a build or test run that exits cleanly with a failure banner returns
  success=false together with the full captured stdout and stderr. A build is a
  counterexample: its output is the text of the filtered lines.
\<close>

theorem failure_output_counterexample:
  "fst (buildProject demo_runtime
          (scripted_child
             (Resolved ''/usr/bin/xcodebuild\<newline>note: Using new build system\<newline>** BUILD FAILED **\<newline>'' [])
             id command_failed)
          demo_now demo_server demo_project ''App'' ''Debug'' None None (fresh_world Map.empty))
     = Inr \<lparr>success = False, output' = ''/usr/bin/xcodebuild\<newline>** BUILD FAILED **'',
             logPath = ''/logs/build-logs/build-2024-01-02T03-04-05-678Z.log''\<rparr>
   \<and> ''/usr/bin/xcodebuild\<newline>** BUILD FAILED **''
       \<noteq> ''/usr/bin/xcodebuild\<newline>note: Using new build system\<newline>** BUILD FAILED **\<newline>'' @ []"
  by (simp add: pipeline_defs demo_defs path_defs classifier_defs split: prod.splits)

text \<open>
  C2, amended. A test run that exits cleanly with a failure banner returns (and does not
  throw) a result with success=false whose output is stdout followed by stderr. A build
  that exits cleanly with \<^verbatim>\<open>** BUILD FAILED **\<close> returns (and does not throw) a result
  with success=false whose output is the text of the decoded lines that pass the filter,
  joined by newlines (of all decoded lines when warnings are included); when the write of
  the structured log is rejected, its output is stdout followed by stderr.
\<close>

theorem failure_reported_as_result:
  "(fst (test_process rt child now srv projectPath scheme tconfiguration testIdentifier
      skipTests destination w) = Resolved stdout stderr \<longrightarrow>
    js_includes stdout ''** BUILD FAILED **'' \<or> js_includes stdout ''** TEST FAILED **'' \<longrightarrow>
    (\<exists>w'. runTests rt child now srv projectPath scheme tconfiguration testIdentifier skipTests
               destination w =
            (Inr \<lparr>success = False, output' = stdout @ stderr, logPath = test_log_path rt srv now\<rparr>,
             w')))
   \<and>
   (fst (build_process rt child now srv projectPath scheme configuration destination w) =
       Resolved stdout stderr \<longrightarrow>
    js_includes stdout ''** BUILD FAILED **'' \<longrightarrow>
    (\<exists>w'. buildProject rt child now srv projectPath scheme configuration destination
               includeWarnings w =
            (Inr \<lparr>success = False,
                   output' =
                     (if denied (on_disk (snd (build_process rt child now srv projectPath scheme
                         configuration destination w)))
                          (build_log_path rt srv now @ ''.json'') = None
                      then outputText rt (build_lines rt includeWarnings stdout)
                      else stdout @ stderr),
                   logPath = build_log_path rt srv now\<rparr>,
             w')))"
  by (auto simp: buildProject_def runTests_def build_finish_def test_finish_def Let_def
        build_succeeded_def tests_succeeded_def writeFile_def
        split: sum.splits prod.splits option.splits)


text \<open>A failed test run and a failed build with text on stderr.\<close>

theorem failure_reported_as_result_witness:
  "fst (test_process demo_runtime (scripted_child (Resolved ''** TEST FAILED **''
      ''stderr text'') id command_failed) demo_now demo_server demo_project ''App'' None None
      None None (fresh_world Map.empty))
     = Resolved ''** TEST FAILED **'' ''stderr text''
   \<and> js_includes ''** TEST FAILED **'' ''** TEST FAILED **''
   \<and> (\<exists>w'. runTests demo_runtime
                (scripted_child (Resolved ''** TEST FAILED **'' ''stderr text'') id command_failed)
                demo_now demo_server demo_project ''App'' None None None None
                (fresh_world Map.empty)
         = (Inr \<lparr>success = False, output' = ''** TEST FAILED **'' @ ''stderr text'',
                  logPath = test_log_path demo_runtime demo_server demo_now\<rparr>, w'))
   \<and> fst (build_process demo_runtime (scripted_child (Resolved ''** BUILD FAILED **''
       ''stderr text'') id command_failed) demo_now demo_server demo_project ''App'' ''Debug''
       None (fresh_world Map.empty))
     = Resolved ''** BUILD FAILED **'' ''stderr text''
   \<and> js_includes ''** BUILD FAILED **'' ''** BUILD FAILED **''
   \<and> (\<exists>w'. buildProject demo_runtime
                (scripted_child (Resolved ''** BUILD FAILED **'' ''stderr text'') id command_failed)
                demo_now demo_server demo_project ''App'' ''Debug'' None None
                (fresh_world Map.empty)
         = (Inr \<lparr>success = False,
                  output' = outputText demo_runtime
                              (build_lines demo_runtime None ''** BUILD FAILED **''),
                  logPath = build_log_path demo_runtime demo_server demo_now\<rparr>, w'))"
proof -
  let ?tchild = "scripted_child (Resolved ''** TEST FAILED **'' ''stderr text'') id command_failed"
  let ?bchild = "scripted_child (Resolved ''** BUILD FAILED **'' ''stderr text'') id command_failed"
  note tinst = failure_reported_as_result [where child = ?tchild and rt = demo_runtime
      and now = demo_now and srv = demo_server and projectPath = demo_project
      and scheme = "''App''" and tconfiguration = None and testIdentifier = None
      and skipTests = None and destination = None and w = "fresh_world Map.empty"
      and stdout = "''** TEST FAILED **''" and stderr = "''stderr text''"
      and configuration = "''Debug''" and includeWarnings = None, THEN conjunct1]
  note binst = failure_reported_as_result [where child = ?bchild and rt = demo_runtime
      and now = demo_now and srv = demo_server and projectPath = demo_project
      and scheme = "''App''" and tconfiguration = None and testIdentifier = None
      and skipTests = None and destination = None and w = "fresh_world Map.empty"
      and stdout = "''** BUILD FAILED **''" and stderr = "''stderr text''"
      and configuration = "''Debug''" and includeWarnings = None, THEN conjunct2]
  have t: "js_includes ''** TEST FAILED **'' ''** TEST FAILED **''" by simp
  have b: "js_includes ''** BUILD FAILED **'' ''** BUILD FAILED **''" by simp
  have d: "denied (on_disk (snd (build_process demo_runtime ?bchild demo_now demo_server
      demo_project ''App'' ''Debug'' None (fresh_world Map.empty))))
            (build_log_path demo_runtime demo_server demo_now @ ''.json'') = None"
    by (simp add: execAsync_def scripted_child_def build_prepare_def mkdir_def fresh_world_def
          split: prod.splits)
  from tinst demo_test_resolves t
  have c1: "\<exists>w'. runTests demo_runtime ?tchild demo_now demo_server demo_project ''App'' None None
              None None (fresh_world Map.empty)
         = (Inr \<lparr>success = False, output' = ''** TEST FAILED **'' @ ''stderr text'',
                  logPath = test_log_path demo_runtime demo_server demo_now\<rparr>, w')"
    by blast
  from binst demo_build_resolves b
  have "\<exists>w'. buildProject demo_runtime ?bchild demo_now demo_server demo_project ''App''
              ''Debug'' None None (fresh_world Map.empty)
         = (Inr \<lparr>success = False,
                   output' =
                     (if denied (on_disk (snd (build_process demo_runtime ?bchild demo_now
                         demo_server demo_project ''App'' ''Debug'' None (fresh_world
                         Map.empty))))
                          (build_log_path demo_runtime demo_server demo_now @ ''.json'') = None
                      then outputText demo_runtime
                             (build_lines demo_runtime None ''** BUILD FAILED **'')
                      else ''** BUILD FAILED **'' @ ''stderr text''),
                   logPath = build_log_path demo_runtime demo_server demo_now\<rparr>, w')"
    by blast
  then have c2: "\<exists>w'. buildProject demo_runtime ?bchild demo_now demo_server demo_project ''App''
              ''Debug'' None None (fresh_world Map.empty)
         = (Inr \<lparr>success = False,
                  output' = outputText demo_runtime
                              (build_lines demo_runtime None ''** BUILD FAILED **''),
                  logPath = build_log_path demo_runtime demo_server demo_now\<rparr>, w')"
    by (simp only: d simp_thms if_True)
  from c1 c2 b t demo_test_resolves demo_build_resolves show ?thesis by blast
qed

section \<open>The diagnostic filter\<close>

lemma significant_record:
  "significant (JObject kvs) \<longleftrightarrow>
     record_type kvs = Some (JString ''diagnostic'') \<and>
     (\<exists>d. map_of kvs ''diagnostic'' = Some (JObject d) \<and>
          record_severity d = Some (JString ''error''))"
proof (cases "map_of kvs ''diagnostic''")
  case None
  then show ?thesis by (simp add: record_type_def record_severity_def)
next
  case (Some v)
  then show ?thesis
    by (cases v) (simp_all add: record_type_def record_severity_def)
qed

text \<open>
  C3, as stated: in a build without warnings a structured record is kept if and only if
  its type is \<^verbatim>\<open>"diagnostic"\<close> and its severity is exactly \<^verbatim>\<open>"error"\<close>. The record
  \<^verbatim>\<open>{"type":"diagnostic","severity":"error"}\<close> has that type and that severity, is in the
  decoded sequence, and is dropped: the filter reads \<^verbatim>\<open>line.diagnostic?.severity\<close>.
\<close>

theorem flat_error_record_counterexample:
  "decode_output demo_runtime flat_line
     = [JObject [(''type'', JString ''diagnostic''), (''severity'', JString ''error'')]]
   \<and> record_type [(''type'', JString ''diagnostic''), (''severity'', JString ''error'')]
       = Some (JString ''diagnostic'')
   \<and> record_severity [(''type'', JString ''diagnostic''), (''severity'', JString ''error'')]
       = Some (JString ''error'')
   \<and> JObject [(''type'', JString ''diagnostic''), (''severity'', JString ''error'')]
       \<notin> set (build_lines demo_runtime (Some False) flat_line)"
  by (simp add: decode_output_def kept_lines_def decode_line_def js_trim_def is_js_space_def
        demo_runtime_def error_line_def warning_line_def flat_line_def flat_record_def
        record_type_def record_severity_def build_lines_def filteredOutput_def
        filterBuildOutput_def)

text \<open>
  C3, amended. In a build without warnings (\<^verbatim>\<open>includeWarnings\<close> false or omitted), a
  structured record is in the filtered line sequence if and only if it is in the decoded
  sequence, its type is \<^verbatim>\<open>"diagnostic"\<close>, and its \<^verbatim>\<open>diagnostic\<close> field holds a record
  whose severity is exactly \<^verbatim>\<open>"error"\<close>.
\<close>

theorem structured_record_kept_iff_error:
  "(JObject kvs \<in> set (build_lines rt (Some False) stdout) \<longleftrightarrow>
      JObject kvs \<in> set (decode_output rt stdout) \<and>
      record_type kvs = Some (JString ''diagnostic'') \<and>
      (\<exists>d. map_of kvs ''diagnostic'' = Some (JObject d) \<and>
           record_severity d = Some (JString ''error'')))
   \<and> build_lines rt None stdout = build_lines rt (Some False) stdout"
  by (auto simp: build_lines_def filteredOutput_def filterBuildOutput_def significant_record
        simp del: significant.simps)

text \<open>
  A record whose diagnostic has severity \<^verbatim>\<open>"error"\<close> is kept and one whose diagnostic has
  severity \<^verbatim>\<open>"warning"\<close> is dropped.
\<close>

theorem structured_record_kept_iff_error_witness:
  "JObject [(''type'', JString ''diagnostic''),
            (''diagnostic'', JObject [(''severity'', JString ''error'')])]
     \<in> set (build_lines demo_runtime (Some False) (error_line @ CHR 0x0A # warning_line))
   \<and> JObject [(''type'', JString ''diagnostic''),
              (''diagnostic'', JObject [(''severity'', JString ''warning'')])]
     \<notin> set (build_lines demo_runtime (Some False) (error_line @ CHR 0x0A # warning_line))
   \<and> decode_output demo_runtime (error_line @ CHR 0x0A # warning_line)
     = [JObject [(''type'', JString ''diagnostic''),
                 (''diagnostic'', JObject [(''severity'', JString ''error'')])],
        JObject [(''type'', JString ''diagnostic''),
                 (''diagnostic'', JObject [(''severity'', JString ''warning'')])]]"
proof -
  let ?out = "error_line @ CHR 0x0A # warning_line"
  let ?error = "[(''type'', JString ''diagnostic''),
                 (''diagnostic'', JObject [(''severity'', JString ''error'')])]"
  let ?warning = "[(''type'', JString ''diagnostic''),
                   (''diagnostic'', JObject [(''severity'', JString ''warning'')])]"
  have d: "decode_output demo_runtime ?out = [JObject ?error, JObject ?warning]"
    by (simp add: decode_output_def kept_lines_def decode_line_def js_trim_def is_js_space_def
          demo_runtime_def error_line_def warning_line_def flat_line_def error_record_def
          warning_record_def)
  have t: "record_type ?error = Some (JString ''diagnostic'')"
    by (simp add: record_type_def)
  have e: "\<exists>d. map_of ?error ''diagnostic'' = Some (JObject d)
               \<and> record_severity d = Some (JString ''error'')"
    by (simp add: record_severity_def)
  have w: "\<not> (\<exists>d. map_of ?warning ''diagnostic'' = Some (JObject d)
                  \<and> record_severity d = Some (JString ''error''))"
    by (simp add: record_severity_def)
  from structured_record_kept_iff_error [of ?error demo_runtime ?out, THEN conjunct1] d t e
  have kept: "JObject ?error \<in> set (build_lines demo_runtime (Some False) ?out)"
    by simp
  from structured_record_kept_iff_error [of ?warning demo_runtime ?out, THEN conjunct1] w
  have dropped: "JObject ?warning \<notin> set (build_lines demo_runtime (Some False) ?out)"
    by blast
  from kept dropped d show ?thesis by blast
qed

section \<open>Decoding the output\<close>

text \<open>
  C7, as stated: the decoded sequence has as many elements as stdout has non-empty lines.
  A line of white space only is not empty, and it is dropped.
\<close>

theorem decoded_length_counterexample:
  "length (decode_output demo_runtime ''a\<newline> \<newline>b'') = 2
   \<and> length (filter (\<lambda>line. line \<noteq> []) (js_split (CHR 0x0A) ''a\<newline> \<newline>b'')) = 3"
  by (simp add: decode_output_def kept_lines_def js_trim_def is_js_space_def)

text \<open>
  C7, amended. The decoding step keeps the lines that contain a character other than white
  space, maps each of them to its JSON-decoded value or, when decoding fails, to the line
  itself, and so yields as many elements as there are such lines.
\<close>

theorem decoded_lines:
  "decode_output rt stdout =
     map (\<lambda>line. case JSON_parse rt line of Some v \<Rightarrow> v | None \<Rightarrow> JString line)
       (filter (\<lambda>line. \<not> list_all is_js_space line) (js_split (CHR 0x0A) stdout))
   \<and> length (decode_output rt stdout) =
       length (filter (\<lambda>line. \<not> list_all is_js_space line) (js_split (CHR 0x0A) stdout))"
proof -
  have "decode_output rt stdout =
     map (\<lambda>line. case JSON_parse rt line of Some v \<Rightarrow> v | None \<Rightarrow> JString line)
       (filter (\<lambda>line. \<not> list_all is_js_space line) (js_split (CHR 0x0A) stdout))"
    by (simp add: decode_output_def kept_lines_def js_trim_Nil_iff decode_line_def fun_eq_iff
          cong: map_cong)
  then show ?thesis by simp
qed

section \<open>The test flags\<close>

lemma js_split_no_sep: "sep \<notin> set s \<Longrightarrow> js_split sep s = [s]"
  by (induction s) auto

lemma js_split_first: "sep \<notin> set a \<Longrightarrow> js_split sep (a @ sep # b) = a # js_split sep b"
  by (induction a) auto

lemma js_split_terms:
  "sep \<notin> set h \<Longrightarrow> \<forall>x\<in>set xs. sep \<notin> set x \<Longrightarrow>
   js_split sep (h @ concat (map (\<lambda>x. sep # x) xs)) = h # xs"
proof (induction xs arbitrary: h)
  case Nil
  then show ?case by (simp add: js_split_no_sep)
next
  case (Cons x xs)
  have "js_split sep (h @ concat (map (\<lambda>x. sep # x) (x # xs)))
        = js_split sep (h @ sep # (x @ concat (map (\<lambda>x. sep # x) xs)))"
    by simp
  also have "\<dots> = h # js_split sep (x @ concat (map (\<lambda>x. sep # x) xs))"
    using Cons.prems(1) by (rule js_split_first)
  also have "js_split sep (x @ concat (map (\<lambda>x. sep # x) xs)) = x # xs"
    using Cons.prems(2) by (intro Cons.IH) auto
  finally show ?case .
qed

lemma js_join_terms:
  "xs \<noteq> [] \<Longrightarrow> sep @ js_join sep (map f xs) = concat (map (\<lambda>x. sep @ f x) xs)"
proof (induction xs rule: list_nonempty_induct)
  case (single x)
  then show ?case by simp
next
  case (cons x xs)
  then obtain y ys where xs: "xs = y # ys" by (cases xs) auto
  have "sep @ js_join sep (map f (x # xs)) = sep @ f x @ (sep @ js_join sep (map f xs))"
    by (simp add: xs)
  also have "\<dots> = sep @ f x @ concat (map (\<lambda>x. sep @ f x) xs)"
    by (simp only: cons.IH)
  finally show ?case by simp
qed

lemma js_join_terms_char:
  "xs \<noteq> [] \<Longrightarrow> c # js_join [c] (map f xs) = concat (map (\<lambda>x. c # f x) xs)"
  using js_join_terms [of xs "[c]" f] by simp

lemma testFlags_rendering:
  "testFlags testIdentifier skipTests =
     ''test''
     @ (case testIdentifier of
          None \<Rightarrow> []
        | Some t \<Rightarrow> if t = [] then [] else '' -only-testing:'' @ t)
     @ concat (map (\<lambda>test. '' -skip-testing:'' @ test)
                 (case skipTests of None \<Rightarrow> [] | Some ts \<Rightarrow> ts))"
proof (cases skipTests)
  case None
  then show ?thesis by (simp add: testFlags_def)
next
  case (Some ts)
  then show ?thesis
    by (cases "ts = []") (simp_all add: testFlags_def js_join_terms_char)
qed

text \<open>
  C4. The claim asks for one \<^verbatim>\<open>-skip-testing:<id>\<close> term per entry of \<^verbatim>\<open>skipTests\<close>, in
  order, each quoted or escaped on its own. The template of \<^verbatim>\<open>runTests\<close> puts the project
  path, the scheme, the configuration, the destination and the bundle path in quotes, and
  inserts each skip identifier as it is. For \<^verbatim>\<open>skipTests = ["A b"]\<close> the command line
  reads \<^verbatim>\<open>clean test -skip-testing:A b 2>&1\<close>: the one entry is not one term.
\<close>

theorem skip_identifier_unquoted:
  \<open>testFlags None (Some [''A b'']) = ''test -skip-testing:A b''
   \<and> test_command_line demo_runtime demo_now demo_server demo_project ''App'' None None
       (Some [''A b'']) None
     = ''which xcodebuild && xcodebuild -project "/proj/App.xcodeproj"         ''
       @ ''-scheme "App"         ''
       @ ''-configuration "Debug"         ''
       @ ''-destination '' @ [CHR 0x27] @ ''platform=iOS Simulator,name=iPhone 15 Pro''
       @ [CHR 0x27] @ ''         ''
       @ ''-resultBundlePath "/proj/TestReports/Reports-2024-01-02T03-04-05-678Z.xcresult"         ''
       @ ''-enableCodeCoverage YES         ''
       @ ''-UseModernBuildSystem=YES         ''
       @ ''-json         ''
       @ ''clean test -skip-testing:A b 2>&1 | tee ''
       @ ''/logs/build-logs/test-2024-01-02T03-04-05-678Z.log''\<close>
  by (simp add: testFlags_def test_command_line_def test_command_def test_bundle_path_def
        test_log_path_def timestamp_of_def gap_def squote_def default_destination_def
        demo_runtime_def demo_now_def demo_server_def demo_project_def demo_dirname_def
        eval_nat_numeral)

section \<open>When the child process fails\<close>

text \<open>
  Where a failed process is reported as a result. When process execution fails with an
  Error and the write to the raw log path is accepted, the text written and returned is the
  error's message, followed by a newline and the attached stderr when there is one and it
  is not empty; the result has success=false and the raw log path. When process execution
  fails with a value that is not an Error, that value is thrown to the caller.
\<close>

lemma process_error_reported:
  "(fst (build_process rt child now srv projectPath scheme configuration destination w) =
      Rejected error \<longrightarrow>
    (case error of
       ErrorValue message attached \<Rightarrow>
         denied (on_disk (snd (build_process rt child now srv projectPath scheme
             configuration destination w))) (build_log_path rt srv now) = None \<longrightarrow>
         (\<exists>w'. buildProject rt child now srv projectPath scheme configuration destination
                 includeWarnings w =
               (Inr \<lparr>success = False,
                      output' = message @ (case attached of
                                             None \<Rightarrow> []
                                           | Some err \<Rightarrow> if err = [] then [] else CHR 0x0A # err),
                      logPath = build_log_path rt srv now\<rparr>, w')
             \<and> files (on_disk w') (build_log_path rt srv now)
               = Some (message @ (case attached of
                                    None \<Rightarrow> []
                                  | Some err \<Rightarrow> if err = [] then [] else CHR 0x0A # err)))
     | NonError v \<Rightarrow>
         fst (buildProject rt child now srv projectPath scheme configuration destination
                includeWarnings w) = Inl (NonError v)))
   \<and>
   (fst (test_process rt child now srv projectPath scheme tconfiguration testIdentifier
       skipTests destination w) = Rejected error \<longrightarrow>
    (case error of
       ErrorValue message attached \<Rightarrow>
         denied (on_disk (snd (test_process rt child now srv projectPath scheme
             tconfiguration testIdentifier skipTests destination w))) (test_log_path rt srv now)
           = None \<longrightarrow>
         (\<exists>w'. runTests rt child now srv projectPath scheme tconfiguration testIdentifier
                 skipTests destination w =
               (Inr \<lparr>success = False,
                      output' = message @ (case attached of
                                             None \<Rightarrow> []
                                           | Some err \<Rightarrow> if err = [] then [] else CHR 0x0A # err),
                      logPath = test_log_path rt srv now\<rparr>, w')
             \<and> files (on_disk w') (test_log_path rt srv now)
               = Some (message @ (case attached of
                                    None \<Rightarrow> []
                                  | Some err \<Rightarrow> if err = [] then [] else CHR 0x0A # err)))
     | NonError v \<Rightarrow>
         fst (runTests rt child now srv projectPath scheme tconfiguration testIdentifier
                skipTests destination w) = Inl (NonError v)))"
proof (intro conjI impI)
  assume r: "fst (build_process rt child now srv projectPath scheme configuration
      destination w) = Rejected error"
  show "case error of
       ErrorValue message attached \<Rightarrow>
         denied (on_disk (snd (build_process rt child now srv projectPath scheme
             configuration destination w))) (build_log_path rt srv now) = None \<longrightarrow>
         (\<exists>w'. buildProject rt child now srv projectPath scheme configuration destination
                 includeWarnings w =
               (Inr \<lparr>success = False,
                      output' = message @ (case attached of
                                             None \<Rightarrow> []
                                           | Some err \<Rightarrow> if err = [] then [] else CHR 0x0A # err),
                      logPath = build_log_path rt srv now\<rparr>, w')
             \<and> files (on_disk w') (build_log_path rt srv now)
               = Some (message @ (case attached of
                                    None \<Rightarrow> []
                                  | Some err \<Rightarrow> if err = [] then [] else CHR 0x0A # err)))
     | NonError v \<Rightarrow>
         fst (buildProject rt child now srv projectPath scheme configuration destination
                includeWarnings w) = Inl (NonError v)"
    by (simp add: build_process_rejected [OF r] on_exec_error_def writeFile_def errorOutput_def
          split: js_exception.splits option.splits)
next
  assume r: "fst (test_process rt child now srv projectPath scheme tconfiguration
      testIdentifier skipTests destination w) = Rejected error"
  show "case error of
       ErrorValue message attached \<Rightarrow>
         denied (on_disk (snd (test_process rt child now srv projectPath scheme
             tconfiguration testIdentifier skipTests destination w))) (test_log_path rt srv now)
           = None \<longrightarrow>
         (\<exists>w'. runTests rt child now srv projectPath scheme tconfiguration testIdentifier
                 skipTests destination w =
               (Inr \<lparr>success = False,
                      output' = message @ (case attached of
                                             None \<Rightarrow> []
                                           | Some err \<Rightarrow> if err = [] then [] else CHR 0x0A # err),
                      logPath = test_log_path rt srv now\<rparr>, w')
             \<and> files (on_disk w') (test_log_path rt srv now)
               = Some (message @ (case attached of
                                    None \<Rightarrow> []
                                  | Some err \<Rightarrow> if err = [] then [] else CHR 0x0A # err)))
     | NonError v \<Rightarrow>
         fst (runTests rt child now srv projectPath scheme tconfiguration testIdentifier
                skipTests destination w) = Inl (NonError v)"
    by (simp add: test_process_rejected [OF r] on_exec_error_def writeFile_def errorOutput_def
          split: js_exception.splits option.splits)
qed

text \<open>
  C6. A process failure with an Error is to be written to the raw log and returned as a
  failed result, never thrown. The \<^verbatim>\<open>catch\<close> block that does so awaits
  \<^verbatim>\<open>writeFile(logPath, errorOutput)\<close> without a guard of its own: when \<^verbatim>\<open>tee\<close> has failed
  because the log directory is not writable, that write is rejected too, and
  \<^verbatim>\<open>buildProject\<close> and \<^verbatim>\<open>runTests\<close> throw instead of returning. On a disk that accepts
  the write, the same failure is returned as a result and written to the raw log.
\<close>

theorem refused_raw_log_throws:
  "fst (build_process demo_runtime (scripted_child tee_failed id command_failed)
          demo_now demo_server demo_project ''App'' ''Debug'' None (fresh_world log_refused))
     = Rejected (ErrorValue ''Command failed'' (Some ''tee: build.log: Permission denied''))
   \<and> fst (buildProject demo_runtime (scripted_child tee_failed id command_failed)
            demo_now demo_server demo_project ''App'' ''Debug'' None None
            (fresh_world log_refused))
     = Inl (ErrorValue ''EACCES: permission denied'' None)
   \<and> fst (runTests demo_runtime (scripted_child tee_failed id command_failed)
            demo_now demo_server demo_project ''App'' None None None None
            (fresh_world test_log_refused))
     = Inl (ErrorValue ''EACCES: permission denied'' None)
   \<and> fst (buildProject demo_runtime (scripted_child tee_failed id command_failed)
            demo_now demo_server demo_project ''App'' ''Debug'' None None
            (fresh_world Map.empty))
     = Inr \<lparr>success = False,
             output' = ''Command failed\<newline>tee: build.log: Permission denied'',
             logPath = ''/logs/build-logs/build-2024-01-02T03-04-05-678Z.log''\<rparr>
   \<and> files (on_disk (snd (buildProject demo_runtime
            (scripted_child tee_failed id command_failed)
            demo_now demo_server demo_project ''App'' ''Debug'' None None
            (fresh_world Map.empty))))
        ''/logs/build-logs/build-2024-01-02T03-04-05-678Z.log''
     = Some ''Command failed\<newline>tee: build.log: Permission denied''"
  by (simp add: pipeline_defs demo_defs path_defs test_log_refused_def demo_test_log_def
        split: prod.splits)

section \<open>Builds that include warnings\<close>

text \<open>
  Where nothing is filtered. With \<^verbatim>\<open>includeWarnings\<close> true the line sequence of a build is
  the full decoded sequence. When the child process completes and the write of the
  structured log is accepted, the returned output is every decoded line, in order, joined by
  newlines, and the world that \<^verbatim>\<open>buildProject\<close> returns is the one in which
  \<^verbatim>\<open><logPath>.json\<close> holds the full decoded sequence, after the result-bundle block has
  run on it; without a bundle nothing runs, and the returned world holds that file.
\<close>

lemma warnings_included_no_filtering:
  "build_lines rt (Some True) stdout = decode_output rt stdout
   \<and> (fst (build_process rt child now srv projectPath scheme configuration destination w)
        = Resolved stdout stderr \<longrightarrow>
      denied (on_disk (snd (build_process rt child now srv projectPath scheme configuration
          destination w)))
        (build_log_path rt srv now @ ''.json'') = None \<longrightarrow>
      buildProject rt child now srv projectPath scheme configuration destination (Some True) w
        = (Inr \<lparr>success = build_succeeded stdout,
                 output' = js_join [CHR 0x0A] (map (render_line rt) (decode_output rt stdout)),
                 logPath = build_log_path rt srv now\<rparr>,
           (let w1 = snd (build_process rt child now srv projectPath scheme configuration
                            destination w);
                w2 = w1\<lparr>on_disk := (on_disk w1)
                        \<lparr>files := (files (on_disk w1))
                           (build_log_path rt srv now @ ''.json'' \<mapsto>
                              JSON_stringify_pretty rt (decode_output rt stdout))\<rparr>\<rparr>
            in if existsSync (build_bundle_path rt projectPath now) w2
               then process_build_results rt child (buildLogsDir srv) (timestamp_of now)
                      (build_bundle_path rt projectPath now) w2
               else w2))
      \<and> (\<not> existsSync (build_bundle_path rt projectPath now)
              (snd (build_process rt child now srv projectPath scheme configuration
                      destination w)) \<longrightarrow>
           files (on_disk (snd (buildProject rt child now srv projectPath scheme configuration
                                  destination (Some True) w)))
             (build_log_path rt srv now @ ''.json'')
           = Some (JSON_stringify_pretty rt (decode_output rt stdout))))"
proof (intro conjI impI)
  show lines: "build_lines rt (Some True) stdout = decode_output rt stdout"
    by (simp add: build_lines_def filteredOutput_def)
  assume r: "fst (build_process rt child now srv projectPath scheme configuration destination w)
        = Resolved stdout stderr"
    and d: "denied (on_disk (snd (build_process rt child now srv projectPath scheme
          configuration destination w)))
        (build_log_path rt srv now @ ''.json'') = None"
  from d show whole: "buildProject rt child now srv projectPath scheme configuration destination
          (Some True) w
        = (Inr \<lparr>success = build_succeeded stdout,
                 output' = js_join [CHR 0x0A] (map (render_line rt) (decode_output rt stdout)),
                 logPath = build_log_path rt srv now\<rparr>,
           (let w1 = snd (build_process rt child now srv projectPath scheme configuration
                            destination w);
                w2 = w1\<lparr>on_disk := (on_disk w1)
                        \<lparr>files := (files (on_disk w1))
                           (build_log_path rt srv now @ ''.json'' \<mapsto>
                              JSON_stringify_pretty rt (decode_output rt stdout))\<rparr>\<rparr>
            in if existsSync (build_bundle_path rt projectPath now) w2
               then process_build_results rt child (buildLogsDir srv) (timestamp_of now)
                      (build_bundle_path rt projectPath now) w2
               else w2))"
    by (simp add: build_process_resolved [OF r] build_finish_def lines writeFile_def Let_def
          outputText_def)
  assume "\<not> existsSync (build_bundle_path rt projectPath now)
              (snd (build_process rt child now srv projectPath scheme configuration
                      destination w))"
  then show "files (on_disk (snd (buildProject rt child now srv projectPath scheme configuration
                                  destination (Some True) w)))
             (build_log_path rt srv now @ ''.json'')
           = Some (JSON_stringify_pretty rt (decode_output rt stdout))"
    by (simp add: whole Let_def existsSync_def build_bundle_path_def)
qed

text \<open>
  C8. With \<^verbatim>\<open>includeWarnings\<close> true the persisted and returned line sequence is to be the
  full decoded sequence. \<^verbatim>\<open>buildProject\<close> breaks this when the write of the structured log
  is rejected: the \<^verbatim>\<open>catch\<close> of its inner \<^verbatim>\<open>try\<close> returns the raw stdout followed by
  stderr, blank lines and all, with success=false, where the decoded lines were to be
  returned. On a disk that accepts the write, the same build returns the decoded lines.
\<close>

theorem refused_structured_log_returns_raw_output:
  "fst (build_process demo_runtime
          (scripted_child
             (Resolved ''warning: unused variable\<newline>\<newline>** BUILD SUCCEEDED **\<newline>'' [])
             id command_failed)
          demo_now demo_server demo_project ''App'' ''Debug'' None (fresh_world json_log_refused))
     = Resolved ''warning: unused variable\<newline>\<newline>** BUILD SUCCEEDED **\<newline>'' []
   \<and> build_lines demo_runtime (Some True)
       ''warning: unused variable\<newline>\<newline>** BUILD SUCCEEDED **\<newline>''
     = [JString ''warning: unused variable'', JString ''** BUILD SUCCEEDED **'']
   \<and> fst (buildProject demo_runtime
          (scripted_child
             (Resolved ''warning: unused variable\<newline>\<newline>** BUILD SUCCEEDED **\<newline>'' [])
             id command_failed)
          demo_now demo_server demo_project ''App'' ''Debug'' None (Some True)
          (fresh_world json_log_refused))
     = Inr \<lparr>success = False,
             output' = ''warning: unused variable\<newline>\<newline>** BUILD SUCCEEDED **\<newline>'',
             logPath = ''/logs/build-logs/build-2024-01-02T03-04-05-678Z.log''\<rparr>
   \<and> files (on_disk (snd (buildProject demo_runtime
          (scripted_child
             (Resolved ''warning: unused variable\<newline>\<newline>** BUILD SUCCEEDED **\<newline>'' [])
             id command_failed)
          demo_now demo_server demo_project ''App'' ''Debug'' None (Some True)
          (fresh_world json_log_refused))))
       ''/logs/build-logs/build-2024-01-02T03-04-05-678Z.log.json''
     = None
   \<and> fst (buildProject demo_runtime
          (scripted_child
             (Resolved ''warning: unused variable\<newline>\<newline>** BUILD SUCCEEDED **\<newline>'' [])
             id command_failed)
          demo_now demo_server demo_project ''App'' ''Debug'' None (Some True)
          (fresh_world Map.empty))
     = Inr \<lparr>success = True,
             output' = ''warning: unused variable\<newline>** BUILD SUCCEEDED **'',
             logPath = ''/logs/build-logs/build-2024-01-02T03-04-05-678Z.log''\<rparr>"
  by (simp add: pipeline_defs demo_defs path_defs classifier_defs json_log_refused_def
        split: prod.splits)

section \<open>Result-bundle post-processing\<close>
























section \<open>The latest-result pointer and its read-back\<close>

lemma buildProject_logPath:
  "buildProject rt child now srv projectPath scheme configuration destination includeWarnings w
     = (Inr r, w') \<Longrightarrow> logPath r = build_log_path rt srv now"
  by (auto simp: buildProject_def build_finish_def on_exec_error_def Let_def
        split: prod.splits exec_outcome.splits sum.splits js_exception.splits)

lemma runTests_logPath:
  "runTests rt child now srv projectPath scheme configuration testIdentifier skipTests destination w
     = (Inr r, w') \<Longrightarrow> logPath r = test_log_path rt srv now"
  by (auto simp: runTests_def test_finish_def on_exec_error_def Let_def
        split: prod.splits exec_outcome.splits sum.splits js_exception.splits)

lemma respond_Inr:
  "respond srv (Inr r, w) =
     (Inr \<lparr>content_text = output' r, isError = \<not> success r\<rparr>,
      srv\<lparr>latestBuildLog := Some (logPath r)\<rparr>, w)"
  by (simp add: respond_def)

lemma respond_returns:
  "respond srv rw = (Inr response, srv', w') \<Longrightarrow>
   \<exists>r. rw = (Inr r, w') \<and> srv' = srv\<lparr>latestBuildLog := Some (logPath r)\<rparr>
       \<and> response = \<lparr>content_text = output' r, isError = \<not> success r\<rparr>"
  by (auto simp: respond_def split: prod.splits sum.splits)

lemma call_tool_pointer:
  assumes "call_tool rt child now request srv w = (Inr response, srv', w')"
  shows "srv' = srv\<lparr>latestBuildLog := Some (invocation_log_path rt srv now request)\<rparr>"
proof (cases "tool_name request = ''build_project''")
  case True
  with assms obtain a where
    "respond srv (buildProject rt child now srv
        (case string_field a ''projectPath'' of None \<Rightarrow> [] | Some s \<Rightarrow> s)
        (case string_field a ''scheme'' of None \<Rightarrow> [] | Some s \<Rightarrow> s)
        (case string_field a ''configuration'' of None \<Rightarrow> ''Debug'' | Some c \<Rightarrow> c)
        (string_field a ''destination'')
        (Some (case boolean_field a ''includeWarnings'' of None \<Rightarrow> False | Some b \<Rightarrow> b))
        w) = (Inr response, srv', w')"
    by (auto simp: call_tool_def split: if_splits option.splits)
  then show ?thesis
    using True by (auto simp: invocation_log_path_def dest!: respond_returns buildProject_logPath)
next
  case False
  with assms obtain a where
    "respond srv (runTests rt child now srv
        (case string_field a ''projectPath'' of None \<Rightarrow> [] | Some s \<Rightarrow> s)
        (case string_field a ''scheme'' of None \<Rightarrow> [] | Some s \<Rightarrow> s)
        (string_field a ''configuration'')
        (string_field a ''testIdentifier'')
        (string_array_field a ''skipTests'')
        (string_field a ''destination'')
        w) = (Inr response, srv', w')"
    by (auto simp: call_tool_def split: if_splits option.splits)
  then show ?thesis
    using False by (auto simp: invocation_log_path_def dest!: respond_returns runTests_logPath)
qed

lemma read_back:
  assumes "latestBuildLog srv = Some lp" and "lp \<noteq> []"
  shows "list_resources srv = [latest_log_resource]"
    and "files (on_disk w) lp = Some t \<Longrightarrow>
         read_resource srv latest_log_uri w
         = Inr [\<lparr>contents_uri = latest_log_uri, contents_mimeType = ''text/plain'',
                 contents_text = t\<rparr>]"
  using assms
  by (simp_all add: list_resources_def read_resource_def readFile_def latest_log_resource_def
        latest_log_uri_def)

lemma failed_process_log:
  "on_exec_error lp e w1 = (Inr r, w') \<Longrightarrow> files (on_disk w') (logPath r) = Some (output' r)"
  by (auto simp: on_exec_error_def writeFile_def split: js_exception.splits option.splits)


text \<open>
  C9. A tool call that returns a response leaves the pointer at the raw log path of that
  invocation, whether the result reports success or failure: the handler stores the
  \<^verbatim>\<open>logPath\<close> of the result, and every result of \<^verbatim>\<open>buildProject\<close> and \<^verbatim>\<open>runTests\<close>
  carries the raw log path. A new server lists no resource. After a call that has returned
  (the raw log path being a non-empty string, as \<^verbatim>\<open>path.join\<close> returns), exactly one
  resource is listed, and reading it returns the text that the raw log file holds; when
  the process has failed, that text is the output the invocation has just written and
  returned.
\<close>

theorem latest_log_pointer:
  "(call_tool rt child now request srv w = (Inr response, srv', w') \<longrightarrow>
      srv' = srv\<lparr>latestBuildLog := Some (invocation_log_path rt srv now request)\<rparr>
      \<and> (invocation_log_path rt srv now request \<noteq> [] \<longrightarrow>
           list_resources srv' = [latest_log_resource]
           \<and> (files (on_disk w') (invocation_log_path rt srv now request) = Some t \<longrightarrow>
                read_resource srv' latest_log_uri w'
                = Inr [\<lparr>contents_uri = latest_log_uri, contents_mimeType = ''text/plain'',
                        contents_text = t\<rparr>])))
   \<and> respond srv (Inr result, w)
     = (Inr \<lparr>content_text = output' result, isError = \<not> success result\<rparr>,
        srv\<lparr>latestBuildLog := Some (logPath result)\<rparr>, w)
   \<and> (buildProject rt child now srv projectPath scheme configuration destination
         includeWarnings w = (Inr r, w1) \<longrightarrow>
      logPath r = build_log_path rt srv now
      \<and> (\<forall>e. fst (build_process rt child now srv projectPath scheme configuration destination w)
                = Rejected e \<longrightarrow>
              files (on_disk w1) (logPath r) = Some (output' r)))
   \<and> (runTests rt child now srv projectPath scheme tconfiguration testIdentifier skipTests
         destination w = (Inr r, w1) \<longrightarrow>
      logPath r = test_log_path rt srv now
      \<and> (\<forall>e. fst (test_process rt child now srv projectPath scheme tconfiguration
                     testIdentifier skipTests destination w) = Rejected e \<longrightarrow>
              files (on_disk w1) (logPath r) = Some (output' r)))
   \<and> (new_server rt dir = Inr srv0 \<longrightarrow> latestBuildLog srv0 = None \<and> list_resources srv0 = [])"
proof (intro conjI impI allI)
  assume ct: "call_tool rt child now request srv w = (Inr response, srv', w')"
  then show p: "srv' = srv\<lparr>latestBuildLog := Some (invocation_log_path rt srv now request)\<rparr>"
    by (rule call_tool_pointer)
  assume ne: "invocation_log_path rt srv now request \<noteq> []"
  from p have l: "latestBuildLog srv' = Some (invocation_log_path rt srv now request)" by simp
  from l ne show "list_resources srv' = [latest_log_resource]" by (rule read_back(1))
  assume "files (on_disk w') (invocation_log_path rt srv now request) = Some t"
  with l ne show "read_resource srv' latest_log_uri w'
                = Inr [\<lparr>contents_uri = latest_log_uri, contents_mimeType = ''text/plain'',
                        contents_text = t\<rparr>]"
    by (rule read_back(2))
next
  show "respond srv (Inr result, w)
     = (Inr \<lparr>content_text = output' result, isError = \<not> success result\<rparr>,
        srv\<lparr>latestBuildLog := Some (logPath result)\<rparr>, w)"
    by (rule respond_Inr)
next
  assume b: "buildProject rt child now srv projectPath scheme configuration destination
         includeWarnings w = (Inr r, w1)"
  then show "logPath r = build_log_path rt srv now" by (rule buildProject_logPath)
  fix e
  assume "fst (build_process rt child now srv projectPath scheme configuration destination w)
                = Rejected e"
  with b show "files (on_disk w1) (logPath r) = Some (output' r)"
    by (simp add: build_process_rejected failed_process_log)
next
  assume t: "runTests rt child now srv projectPath scheme tconfiguration testIdentifier skipTests
         destination w = (Inr r, w1)"
  then show "logPath r = test_log_path rt srv now" by (rule runTests_logPath)
  fix e
  assume "fst (test_process rt child now srv projectPath scheme tconfiguration
                     testIdentifier skipTests destination w) = Rejected e"
  with t show "files (on_disk w1) (logPath r) = Some (output' r)"
    by (simp add: test_process_rejected failed_process_log)
next
  assume "new_server rt dir = Inr srv0"
  then show "latestBuildLog srv0 = None" and "list_resources srv0 = []"
    by (auto simp: new_server_def list_resources_def split: if_splits)
qed


text \<open>
  A first build on a new server: \<^verbatim>\<open>tee\<close> has written the raw log, the one resource is
  listed and its content is the raw log text.
\<close>

theorem latest_log_pointer_witness:
  "new_server demo_runtime ''/logs'' = Inr demo_server
   \<and> list_resources demo_server = []
   \<and> fst (call_tool demo_runtime
            (scripted_child (Resolved demo_build_output [])
               (tee_log ''** BUILD SUCCEEDED **'') command_failed)
            demo_now demo_request demo_server (fresh_world Map.empty))
     = Inr \<lparr>content_text = demo_build_output, isError = False\<rparr>
   \<and> latestBuildLog (fst (snd (call_tool demo_runtime
            (scripted_child (Resolved demo_build_output [])
               (tee_log ''** BUILD SUCCEEDED **'') command_failed)
            demo_now demo_request demo_server (fresh_world Map.empty))))
     = Some demo_build_log
   \<and> list_resources (fst (snd (call_tool demo_runtime
            (scripted_child (Resolved demo_build_output [])
               (tee_log ''** BUILD SUCCEEDED **'') command_failed)
            demo_now demo_request demo_server (fresh_world Map.empty))))
     = [latest_log_resource]
   \<and> read_resource
        (fst (snd (call_tool demo_runtime
            (scripted_child (Resolved demo_build_output [])
               (tee_log ''** BUILD SUCCEEDED **'') command_failed)
            demo_now demo_request demo_server (fresh_world Map.empty))))
        latest_log_uri
        (snd (snd (call_tool demo_runtime
            (scripted_child (Resolved demo_build_output [])
               (tee_log ''** BUILD SUCCEEDED **'') command_failed)
            demo_now demo_request demo_server (fresh_world Map.empty))))
     = Inr [\<lparr>contents_uri = latest_log_uri, contents_mimeType = ''text/plain'',
             contents_text = ''** BUILD SUCCEEDED **''\<rparr>]
   \<and> fst (build_process demo_runtime (scripted_child tee_failed id command_failed)
          demo_now demo_server demo_project ''App'' ''Debug'' None (fresh_world Map.empty))
     = Rejected (ErrorValue ''Command failed'' (Some ''tee: build.log: Permission denied''))
   \<and> fst (buildProject demo_runtime (scripted_child tee_failed id command_failed)
          demo_now demo_server demo_project ''App'' ''Debug'' None None (fresh_world Map.empty))
     = Inr \<lparr>success = False,
             output' = ''Command failed\<newline>tee: build.log: Permission denied'',
             logPath = demo_build_log\<rparr>
   \<and> files (on_disk (snd (buildProject demo_runtime (scripted_child tee_failed id command_failed)
          demo_now demo_server demo_project ''App'' ''Debug'' None None (fresh_world Map.empty))))
        demo_build_log
     = Some ''Command failed\<newline>tee: build.log: Permission denied''"
proof -
  let ?child = "scripted_child (Resolved demo_build_output [])
                  (tee_log ''** BUILD SUCCEEDED **'') command_failed"
  let ?call = "call_tool demo_runtime ?child demo_now demo_request demo_server
                 (fresh_world Map.empty)"
  have n: "new_server demo_runtime ''/logs'' = Inr demo_server"
    by (simp add: new_server_def demo_runtime_def demo_server_def)
  have lp: "invocation_log_path demo_runtime demo_server demo_now demo_request = demo_build_log"
    by (simp add: invocation_log_path_def demo_request_def demo_build_log_path)
  have ne: "demo_build_log \<noteq> []"
    by (simp add: demo_build_log_def)
  have r: "fst ?call = Inr \<lparr>content_text = demo_build_output, isError = False\<rparr>"
    by (simp add: handler_defs pipeline_defs demo_defs path_defs classifier_defs
          split: prod.splits)
  have f: "files (on_disk (snd (snd ?call))) demo_build_log = Some ''** BUILD SUCCEEDED **''"
    by (simp add: handler_defs pipeline_defs demo_defs path_defs classifier_defs
          split: prod.splits)
  from r have c: "?call = (Inr \<lparr>content_text = demo_build_output, isError = False\<rparr>,
                          fst (snd ?call), snd (snd ?call))"
    by (metis prod.collapse)
  note inst = latest_log_pointer [where rt = demo_runtime and child = ?child and now = demo_now
      and request = demo_request and srv = demo_server and w = "fresh_world Map.empty"
      and response = "\<lparr>content_text = demo_build_output, isError = False\<rparr>"
      and srv' = "fst (snd ?call)" and w' = "snd (snd ?call)"
      and t = "''** BUILD SUCCEEDED **''" and dir = "''/logs''" and ?srv0.0 = demo_server]
  note after = inst [THEN conjunct1, rule_format, OF c]
  from lp ne have ne': "invocation_log_path demo_runtime demo_server demo_now demo_request \<noteq> []"
    by simp
  from lp f have f': "files (on_disk (snd (snd ?call)))
        (invocation_log_path demo_runtime demo_server demo_now demo_request)
      = Some ''** BUILD SUCCEEDED **''"
    by simp
  from after [THEN conjunct1] lp
  have p: "fst (snd ?call) = demo_server\<lparr>latestBuildLog := Some demo_build_log\<rparr>"
    by simp
  note listed = after [THEN conjunct2, THEN mp, OF ne']
  from listed [THEN conjunct1]
  have l: "list_resources (fst (snd ?call)) = [latest_log_resource]" .
  from listed [THEN conjunct2, THEN mp, OF f']
  have rd: "read_resource (fst (snd ?call)) latest_log_uri (snd (snd ?call))
             = Inr [\<lparr>contents_uri = latest_log_uri, contents_mimeType = ''text/plain'',
                     contents_text = ''** BUILD SUCCEEDED **''\<rparr>]" .
  from inst [THEN conjunct2, THEN conjunct2, THEN conjunct2, THEN conjunct2, rule_format, OF n]
  have e: "list_resources demo_server = []" by simp
  from p have q: "latestBuildLog (fst (snd ?call)) = Some demo_build_log" by simp
  let ?failed = "buildProject demo_runtime (scripted_child tee_failed id command_failed)
          demo_now demo_server demo_project ''App'' ''Debug'' None None (fresh_world Map.empty)"
  let ?result = "\<lparr>success = False,
                  output' = ''Command failed\<newline>tee: build.log: Permission denied'',
                  logPath = demo_build_log\<rparr>"
  have rej: "fst (build_process demo_runtime (scripted_child tee_failed id command_failed)
          demo_now demo_server demo_project ''App'' ''Debug'' None (fresh_world Map.empty))
     = Rejected (ErrorValue ''Command failed'' (Some ''tee: build.log: Permission denied''))"
    by (simp add: demo_build_process tee_failed_def)
  have fr: "fst ?failed = Inr ?result"
    by (simp add: pipeline_defs demo_defs path_defs split: prod.splits)
  then have fc: "?failed = (Inr ?result, snd ?failed)"
    by (metis prod.collapse)
  from latest_log_pointer [where rt = demo_runtime
      and child = "scripted_child tee_failed id command_failed" and now = demo_now
      and srv = demo_server and projectPath = demo_project and scheme = "''App''"
      and configuration = "''Debug''" and destination = None and includeWarnings = None
      and w = "fresh_world Map.empty" and r = ?result and ?w1.0 = "snd ?failed",
      THEN conjunct2, THEN conjunct2, THEN conjunct1, rule_format, OF fc]
    rej
  have fw: "files (on_disk (snd ?failed)) demo_build_log
            = Some ''Command failed\<newline>tee: build.log: Permission denied''"
    by simp
  from n e r q l rd rej fr fw show ?thesis by blast
qed

end
